theory Spec2Isabelle
  imports Complex_Main "HOL-Library.Word"
begin

section \<open>Data model\<close>

text \<open>
  The server keeps two collections that matter here: \<open>GlobalSettings\<close> (one catalog
  document per shop) and \<open>OrderQueue\<close> (one intake record per order with customized
  items). The webhook handler and \<open>generateProductionFile\<close> turn an order into a
  production description that is written to the log.

  A JavaScript string is a list of 16-bit code units; \<open>str\<close> turns an ASCII literal
  into one. JavaScript numbers are only stored and copied by this code, never computed
  with, so they are modelled as rationals (every finite double is one). A field that a
  document may lack (\<open>undefined\<close>) is an \<open>option\<close>. A \<open>Date\<close> is the number of
  milliseconds it holds.
\<close>

type_synonym number = rat
type_synonym date = nat
type_synonym jstring = "16 word list"

definition str :: "string \<Rightarrow> jstring" where
  "str s = map (\<lambda>c. of_nat (of_char c)) s"

text \<open>
  A value that \<open>JSON.parse\<close> can produce, or \<open>undefined\<close> for a member that is
  missing. An object is the list of its members as the text has them; a later member
  of the same name wins.
\<close>

datatype jsval =
    JUndefined
  | JNull
  | JBool bool
  | JNum number
  | JStr jstring
  | JArr "jsval list"
  | JObj "(jstring \<times> jsval) list"

record textOption =
  t_id :: "number option"
  t_name :: "jstring option"
  t_maxLength :: "number option"
  t_basePrice :: "number option"

record coordinates =
  coord_x :: "number option"
  coord_y :: "number option"
  maxWidth :: "number option"
  maxHeight :: "number option"
  rotation :: "number option"

record placement =
  p_id :: "number option"
  p_name :: "jstring option"
  p_code :: "jstring option"
  p_price :: "number option"
  p_coordinates :: coordinates

record font =
  f_id :: "number option"
  f_name :: "jstring option"
  f_code :: "jstring option"
  f_price :: "number option"
  fontFile :: "jstring option"
  displayName :: "jstring option"

record globalSettings =
  gs_shopDomain :: jstring
  textOptions :: "textOption list"
  placements :: "placement list"
  fonts :: "font list"
  updatedAt :: date

text \<open>
  The object \<open>props\<close> of line 285. It is created by \<open>{}\<close>, so it has own properties
  and a prototype: \<open>Object.prototype\<close> at first, and \<open>null\<close> or a value of the
  payload once an assignment under the name \<open>__proto__\<close> has replaced it.
\<close>

datatype protoLink = ObjectPrototype | NullPrototype | ValuePrototype jsval

record propsObject =
  own :: "jstring \<rightharpoonup> jsval"
  proto :: protoLink

text \<open>An element of \<open>customizedItems\<close> (lines 292 to 300).\<close>

record customizedItem =
  lineItemId :: jsval
  productId :: jsval
  variantId :: jsval
  sku :: jsval
  title :: jsval
  quantity :: jsval
  properties :: propsObject

text \<open>An element of \<open>customizations\<close> (lines 378 to 385).\<close>

record customization =
  c_type :: jstring
  c_value :: jstring
  c_placement :: "jstring option"
  c_font :: jstring
  c_color :: jstring
  c_coordinates :: coordinates

section \<open>Strings and truthiness\<close>

text \<open>\<open>s.split(',')\<close>: the pieces between the separators; one piece for a string without one.\<close>

fun split_on :: "16 word \<Rightarrow> jstring \<Rightarrow> jstring \<Rightarrow> jstring list" where
  "split_on sep cur [] = [cur]"
| "split_on sep cur (c # cs) =
     (if c = sep then cur # split_on sep [] cs else split_on sep (cur @ [c]) cs)"

definition split :: "jstring \<Rightarrow> 16 word \<Rightarrow> jstring list" where
  "split s sep = split_on sep [] s"

text \<open>
  The code units that \<open>trim\<close> strips: the white space and the line terminators of the
  language (tab, line feed, vertical tab, form feed, carriage return, space, no-break
  space, the space separators of Unicode, line and paragraph separator, byte order mark).
\<close>

definition isWhiteSpace :: "16 word \<Rightarrow> bool" where
  "isWhiteSpace u \<longleftrightarrow>
     u \<in> set [0x0009, 0x000A, 0x000B, 0x000C, 0x000D, 0x0020, 0x00A0, 0x1680, 0x2000, 0x2001,
              0x2002, 0x2003, 0x2004, 0x2005, 0x2006, 0x2007, 0x2008, 0x2009, 0x200A, 0x2028,
              0x2029, 0x202F, 0x205F, 0x3000, 0xFEFF]"

definition trim :: "jstring \<Rightarrow> jstring" where
  "trim s = rev (dropWhile isWhiteSpace (rev (dropWhile isWhiteSpace s)))"

definition asciiUpper :: "16 word \<Rightarrow> 16 word" where
  "asciiUpper u =
     (case map_of (zip (str ''abcdefghijklmnopqrstuvwxyz'') (str ''ABCDEFGHIJKLMNOPQRSTUVWXYZ'')) u of
        None \<Rightarrow> u
      | Some v \<Rightarrow> v)"

text \<open>
  \<open>s.toUpperCase()\<close>. On ASCII text it maps the letters a to z and nothing else. On
  other text the case tables of the engine decide; they are not part of this program and
  enter the model as the parameter \<open>unicodeUpper\<close>, about which nothing is assumed.
\<close>

definition toUpperCase :: "(jstring \<Rightarrow> jstring) \<Rightarrow> jstring \<Rightarrow> jstring" where
  "toUpperCase unicodeUpper s =
     (if list_all (\<lambda>u. u < 0x80) s then map asciiUpper s else unicodeUpper s)"

text \<open>
  Truthiness: \<open>undefined\<close>, \<open>null\<close>, \<open>false\<close>, zero and the empty string are falsy,
  every other value (arrays and objects too) is truthy. \<open>a || b\<close> is \<open>a\<close> when \<open>a\<close>
  is truthy and \<open>b\<close> otherwise.
\<close>

definition truthy :: "jsval \<Rightarrow> bool" where
  "truthy v =
     (case v of
        JUndefined \<Rightarrow> False
      | JNull \<Rightarrow> False
      | JBool b \<Rightarrow> b
      | JNum n \<Rightarrow> n \<noteq> 0
      | JStr s \<Rightarrow> s \<noteq> []
      | JArr xs \<Rightarrow> True
      | JObj members \<Rightarrow> True)"

definition js_or :: "jsval \<Rightarrow> jsval \<Rightarrow> jsval" where
  "js_or a b = (if truthy a then a else b)"

text \<open>\<open>a || 'literal'\<close> for a field of a document that is a string or missing.\<close>

definition or_literal :: "jstring option \<Rightarrow> jstring \<Rightarrow> jstring" where
  "or_literal a d = (case a of None \<Rightarrow> d | Some s \<Rightarrow> if s = [] then d else s)"

section \<open>Reading and writing properties\<close>

text \<open>
  \<open>props[k]\<close> for one of the six names the code reads (\<open>Custom Text\<close>,
  \<open>Player Name\<close>, \<open>Jersey Number\<close>, \<open>Custom Message\<close>, \<open>Placement\<close>,
  \<open>Font Style\<close>): the own property when there is one, otherwise the member of the
  prototype when the prototype is an object of the payload, otherwise \<open>undefined\<close>
  (neither \<open>Object.prototype\<close> nor an array has a property of these names).
\<close>

definition inheritedProp :: "protoLink \<Rightarrow> jstring \<Rightarrow> jsval" where
  "inheritedProp p k =
     (case p of
        ValuePrototype (JObj members) \<Rightarrow>
          (case map_of (rev members) k of None \<Rightarrow> JUndefined | Some v \<Rightarrow> v)
      | _ \<Rightarrow> JUndefined)"

definition getProp :: "propsObject \<Rightarrow> jstring \<Rightarrow> jsval" where
  "getProp obj k = (case own obj k of Some v \<Rightarrow> v | None \<Rightarrow> inheritedProp (proto obj) k)"

text \<open>
  The setter of the accessor \<open>__proto__\<close> of \<open>Object.prototype\<close>: an object or an
  array becomes the prototype, \<open>null\<close> removes it, any other value is ignored.
\<close>

definition setPrototype :: "propsObject \<Rightarrow> jsval \<Rightarrow> propsObject" where
  "setPrototype obj v =
     (case v of
        JNull \<Rightarrow> obj\<lparr>proto := NullPrototype\<rparr>
      | JArr xs \<Rightarrow> obj\<lparr>proto := ValuePrototype v\<rparr>
      | JObj members \<Rightarrow> obj\<lparr>proto := ValuePrototype v\<rparr>
      | _ \<Rightarrow> obj)"

text \<open>
  Whether an assignment under the name \<open>__proto__\<close> reaches that setter: the object has
  no own property of the name, and the search along the prototypes ends at
  \<open>Object.prototype\<close> without meeting a member of the name on the way.
\<close>

definition reachesSetter :: "propsObject \<Rightarrow> bool" where
  "reachesSetter obj =
     (own obj (str ''__proto__'') = None \<and>
      (case proto obj of
         ObjectPrototype \<Rightarrow> True
       | NullPrototype \<Rightarrow> False
       | ValuePrototype (JObj members) \<Rightarrow> map_of members (str ''__proto__'') = None
       | ValuePrototype v \<Rightarrow> True))"

text \<open>
  Line 287: \<open>props[prop.name] = prop.value\<close>. Under the name \<open>__proto__\<close> the
  assignment runs the inherited setter when it reaches it; every other assignment makes
  (or overwrites) an own property.
\<close>

definition setProp :: "propsObject \<Rightarrow> jstring \<times> jsval \<Rightarrow> propsObject" where
  "setProp obj prop =
     (if fst prop = str ''__proto__'' \<and> reachesSetter obj
      then setPrototype obj (snd prop)
      else obj\<lparr>own := (own obj)(fst prop \<mapsto> snd prop)\<rparr>)"

definition emptyObject :: propsObject where
  "emptyObject = \<lparr>own = Map.empty, proto = ObjectPrototype\<rparr>"

text \<open>Lines 285 to 288: the \<open>forEach\<close> over the declared properties.\<close>

definition buildProps :: "(jstring \<times> jsval) list \<Rightarrow> propsObject" where
  "buildProps ps = foldl setProp emptyObject ps"

section \<open>Customizations of one item (lines 360 to 388)\<close>

text \<open>The messages of the two type errors the loop body can raise, as the engine words them.\<close>

definition splitError :: jstring where
  "splitError = str ''props.Placement.split is not a function''"

definition upperError :: jstring where
  "upperError = str ''customText.toUpperCase is not a function''"

text \<open>
  Line 364. A truthy value that is not a string has no method \<open>split\<close>, and the call
  throws.
\<close>

definition placementNames :: "propsObject \<Rightarrow> jstring + jstring list" where
  "placementNames props =
     (let v = getProp props (str ''Placement'')
      in if truthy v
         then (case v of JStr s \<Rightarrow> Inr (map trim (split s 0x2C)) | _ \<Rightarrow> Inl splitError)
         else Inr [])"

text \<open>Line 367.\<close>

definition customText :: "propsObject \<Rightarrow> jsval" where
  "customText props =
     js_or
       (js_or (js_or (js_or (getProp props (str ''Custom Text''))
                        (getProp props (str ''Player Name'')))
                 (getProp props (str ''Jersey Number'')))
          (getProp props (str ''Custom Message'')))
       (JStr [])"

text \<open>Line 371.\<close>

definition fontDisplay :: "propsObject \<Rightarrow> jsval" where
  "fontDisplay props = js_or (getProp props (str ''Font Style'')) (JStr (str ''Standard Font (Free)''))"

text \<open>\<open>f.displayName === fontDisplay\<close>: a string equals only the same string.\<close>

definition labelled :: "jsval \<Rightarrow> font \<Rightarrow> bool" where
  "labelled fd f = (case fd of JStr l \<Rightarrow> displayName f = Some l | _ \<Rightarrow> False)"

text \<open>
  Line 372: \<open>settings?.fonts.find(f => f.displayName === fontDisplay) || settings?.fonts[0]\<close>.
  Without a settings document both sides are \<open>undefined\<close>; so is \<open>fonts[0]\<close> of an
  empty array.
\<close>

definition resolveFont :: "globalSettings option \<Rightarrow> jsval \<Rightarrow> font option" where
  "resolveFont settings fd =
     (case settings of
        None \<Rightarrow> None
      | Some s \<Rightarrow>
          (case List.find (labelled fd) (fonts s) of
             Some f \<Rightarrow> Some f
           | None \<Rightarrow> (case fonts s of [] \<Rightarrow> None | f # _ \<Rightarrow> Some f)))"

text \<open>Line 382: \<open>font?.code || 'standard'\<close>.\<close>

definition fontCode :: "font option \<Rightarrow> jstring" where
  "fontCode fnt =
     (case fnt of None \<Rightarrow> str ''standard'' | Some f \<Rightarrow> or_literal (f_code f) (str ''standard''))"

text \<open>Line 376: \<open>settings?.placements.find(p => p.name === placementName)\<close>.\<close>

definition findPlacement :: "globalSettings option \<Rightarrow> jstring \<Rightarrow> placement option" where
  "findPlacement settings placementName =
     (case settings of
        None \<Rightarrow> None
      | Some s \<Rightarrow> List.find (\<lambda>p. p_name p = Some placementName) (placements s))"

text \<open>The object pushed at lines 378 to 385, for a text that is a string.\<close>

definition customizationOf ::
  "(jstring \<Rightarrow> jstring) \<Rightarrow> jstring \<Rightarrow> font option \<Rightarrow> placement \<Rightarrow> customization" where
  "customizationOf up t fnt p =
     \<lparr>c_type = str ''text'', c_value = toUpperCase up t, c_placement = p_code p,
      c_font = fontCode fnt, c_color = str ''white'', c_coordinates = p_coordinates p\<rparr>"

text \<open>
  Building that object evaluates \<open>customText.toUpperCase()\<close>, which throws when the
  text is not a string.
\<close>

definition mkCustomization ::
  "(jstring \<Rightarrow> jstring) \<Rightarrow> jsval \<Rightarrow> font option \<Rightarrow> placement \<Rightarrow> jstring + customization" where
  "mkCustomization up text fnt p =
     (case text of JStr t \<Rightarrow> Inr (customizationOf up t fnt p) | _ \<Rightarrow> Inl upperError)"

text \<open>The body of the \<open>forEach\<close> (lines 376 to 386): push one customization, or nothing.\<close>

definition pushCustomization ::
  "(jstring \<Rightarrow> jstring) \<Rightarrow> globalSettings option \<Rightarrow> jsval \<Rightarrow> font option \<Rightarrow> jstring
     \<Rightarrow> customization list \<Rightarrow> jstring + customization list" where
  "pushCustomization up settings text fnt placementName customizations =
     (case findPlacement settings placementName of
        None \<Rightarrow> Inr customizations
      | Some p \<Rightarrow>
          (case mkCustomization up text fnt p of
             Inl m \<Rightarrow> Inl m
           | Inr c \<Rightarrow> Inr (customizations @ [c])))"

text \<open>A loop whose body may throw: the first exception ends it.\<close>

fun forEach :: "('a \<Rightarrow> 'b \<Rightarrow> jstring + 'b) \<Rightarrow> 'a list \<Rightarrow> 'b \<Rightarrow> jstring + 'b" where
  "forEach body [] acc = Inr acc"
| "forEach body (x # xs) acc =
     (case body x acc of Inl m \<Rightarrow> Inl m | Inr acc' \<Rightarrow> forEach body xs acc')"

text \<open>
  Lines 360 to 388: the list \<open>customizations\<close> when the loop body reaches line 390, or
  the exception that leaves it.
\<close>

definition itemCustomizations ::
  "(jstring \<Rightarrow> jstring) \<Rightarrow> globalSettings option \<Rightarrow> propsObject \<Rightarrow> jstring + customization list"
  where
  "itemCustomizations up settings props =
     (case placementNames props of
        Inl m \<Rightarrow> Inl m
      | Inr names \<Rightarrow>
          (let text = customText props
           in if truthy text \<and> 0 < length names
              then forEach
                     (pushCustomization up settings text
                        (resolveFont settings (fontDisplay props)))
                     names []
              else Inr []))"

text \<open>
  The values on which the loop body calls a string method are strings: the customization
  text, and the value of \<open>Placement\<close> unless it is falsy.
\<close>

definition placementIsString :: "propsObject \<Rightarrow> bool" where
  "placementIsString props \<longleftrightarrow>
     (case getProp props (str ''Placement'') of JStr s \<Rightarrow> True | v \<Rightarrow> \<not> truthy v)"

definition textIsString :: "propsObject \<Rightarrow> bool" where
  "textIsString props \<longleftrightarrow> (case customText props of JStr t \<Rightarrow> True | _ \<Rightarrow> False)"

section \<open>The default catalog (lines 133 to 176)\<close>

definition defaultTextOptions :: "textOption list" where
  "defaultTextOptions =
     [\<lparr>t_id = Some 1, t_name = Some (str ''Player Name''), t_maxLength = Some 15,
       t_basePrice = Some 0\<rparr>,
      \<lparr>t_id = Some 2, t_name = Some (str ''Custom Text''), t_maxLength = Some 25,
       t_basePrice = Some 0\<rparr>,
      \<lparr>t_id = Some 3, t_name = Some (str ''Jersey Number''), t_maxLength = Some 3,
       t_basePrice = Some 0\<rparr>]"

definition defaultPlacements :: "placement list" where
  "defaultPlacements =
     [\<lparr>p_id = Some 1, p_name = Some (str ''Chest''), p_code = Some (str ''chest''),
       p_price = Some 5,
       p_coordinates = \<lparr>coord_x = Some 360, coord_y = Some 250, maxWidth = Some 200,
                        maxHeight = Some 60, rotation = None\<rparr>\<rparr>,
      \<lparr>p_id = Some 2, p_name = Some (str ''Back''), p_code = Some (str ''back''),
       p_price = Some 5,
       p_coordinates = \<lparr>coord_x = Some 360, coord_y = Some 300, maxWidth = Some 280,
                        maxHeight = Some 100, rotation = None\<rparr>\<rparr>,
      \<lparr>p_id = Some 3, p_name = Some (str ''Left Sleeve''), p_code = Some (str ''left_sleeve''),
       p_price = Some 7,
       p_coordinates = \<lparr>coord_x = Some 150, coord_y = Some 320, maxWidth = Some 80,
                        maxHeight = Some 40, rotation = Some (- 90)\<rparr>\<rparr>,
      \<lparr>p_id = Some 4, p_name = Some (str ''Right Sleeve''), p_code = Some (str ''right_sleeve''),
       p_price = Some 7,
       p_coordinates = \<lparr>coord_x = Some 150, coord_y = Some 320, maxWidth = Some 80,
                        maxHeight = Some 40, rotation = Some (- 90)\<rparr>\<rparr>]"

definition defaultFonts :: "font list" where
  "defaultFonts =
     [\<lparr>f_id = Some 1, f_name = Some (str ''Standard''), f_code = Some (str ''standard''),
       f_price = Some 0, fontFile = Some (str ''Arial''),
       displayName = Some (str ''Standard Font (Free)'')\<rparr>,
      \<lparr>f_id = Some 2, f_name = Some (str ''Varsity''), f_code = Some (str ''varsity''),
       f_price = Some 3, fontFile = Some (str ''Impact''),
       displayName = Some (str ''Varsity Style (+$3)'')\<rparr>,
      \<lparr>f_id = Some 3, f_name = Some (str ''Script''), f_code = Some (str ''script''),
       f_price = Some 5, fontFile = Some (str ''BrushScriptMT''),
       displayName = Some (str ''Script Style (+$5)'')\<rparr>,
      \<lparr>f_id = Some 4, f_name = Some (str ''Modern''), f_code = Some (str ''modern''),
       f_price = Some 3, fontFile = Some (str ''HelveticaNeue-Light''),
       displayName = Some (str ''Modern Style (+$3)'')\<rparr>]"

text \<open>
  The document that \<open>GlobalSettings.create\<close> stores for a shop; \<open>updatedAt\<close> takes the
  schema's default, the time of creation.
\<close>

definition defaultSettings :: "jstring \<Rightarrow> date \<Rightarrow> globalSettings" where
  "defaultSettings shop now =
     \<lparr>gs_shopDomain = shop, textOptions = defaultTextOptions, placements = defaultPlacements,
      fonts = defaultFonts, updatedAt = now\<rparr>"

section \<open>The order payload and candidate extraction (lines 281 to 303)\<close>

text \<open>
  A line item of the payload. \<open>item.properties\<close> is absent (\<open>None\<close>) or an array of
  pairs; the name of a pair is a string, its value is any value of the payload (or
  \<open>undefined\<close> when the pair has none). The order's name and the names of the customer
  are strings or absent, as the commerce platform sends them; \<open>id_toString\<close> is
  the string that \<open>order.id.toString()\<close> returns.
\<close>

record lineItem =
  item_id :: jsval
  product_id :: jsval
  variant_id :: jsval
  item_sku :: jsval
  item_title :: jsval
  item_quantity :: jsval
  item_properties :: "(jstring \<times> jsval) list option"

record orderCustomer =
  first_name :: "jstring option"
  last_name :: "jstring option"

record shopifyOrder =
  id_toString :: jstring
  order_name :: "jstring option"
  order_email :: jsval
  order_customer :: "orderCustomer option"
  order_created_at :: jsval
  line_items :: "lineItem list"

text \<open>Line 291.\<close>

definition hasCustomization :: "propsObject \<Rightarrow> bool" where
  "hasCustomization props =
     truthy (js_or (js_or (js_or (getProp props (str ''Custom Text''))
                             (getProp props (str ''Player Name'')))
                      (getProp props (str ''Jersey Number'')))
               (getProp props (str ''Custom Message'')))"

text \<open>The object pushed at lines 292 to 300.\<close>

definition mkCandidate :: "lineItem \<Rightarrow> propsObject \<Rightarrow> customizedItem" where
  "mkCandidate item props =
     \<lparr>lineItemId = item_id item, productId = product_id item, variantId = variant_id item,
      sku = item_sku item, title = item_title item, quantity = item_quantity item,
      properties = props\<rparr>"

text \<open>Lines 284 to 302: the body of the loop over \<open>order.line_items\<close>.\<close>

definition pushCandidate :: "lineItem \<Rightarrow> customizedItem list \<Rightarrow> customizedItem list" where
  "pushCandidate item customizedItems =
     (case item_properties item of
        None \<Rightarrow> customizedItems
      | Some ps \<Rightarrow>
          if 0 < length ps
          then (let props = buildProps ps
                in if hasCustomization props
                   then customizedItems @ [mkCandidate item props]
                   else customizedItems)
          else customizedItems)"

text \<open>The declared properties of a line item: none when \<open>item.properties\<close> is absent.\<close>

definition declared :: "lineItem \<Rightarrow> (jstring \<times> jsval) list" where
  "declared item = (case item_properties item of None \<Rightarrow> [] | Some ps \<Rightarrow> ps)"

definition extractCustomizedItems :: "lineItem list \<Rightarrow> customizedItem list" where
  "extractCustomizedItems items = fold pushCandidate items []"

section \<open>Intake records and the production description\<close>

datatype status = Pending | Processing | Completed | Error

record customerInfo =
  email :: jsval
  cust_name :: jstring

record orderData =
  od_customer :: customerInfo
  od_createdAt :: jsval

text \<open>
  A document of \<open>OrderQueue\<close>. \<open>qid\<close> stands for \<open>_id\<close>: the position of the document
  in the collection. The document that \<open>create\<close> returns holds the items it was given.
\<close>

record queueEntry =
  qid :: nat
  shopDomain :: jstring
  orderId :: jstring
  orderNumber :: "jstring option"
  orderData :: orderData
  items :: "customizedItem list"
  status :: status
  processedAt :: "date option"
  error :: "jstring option"
  createdAt :: date

record productionLineItem =
  li_id :: jsval
  li_product_id :: jsval
  li_variant_id :: jsval
  li_sku :: jsval
  li_title :: jsval
  li_quantity :: jsval
  li_customizations :: "customization list"

record productionData =
  order_id :: jstring
  order_number :: "jstring option"
  created_at :: date
  pd_customer :: customerInfo
  pd_line_items :: "productionLineItem list"

section \<open>The database and the environment\<close>

text \<open>
  \<open>GlobalSettings\<close> has a unique index on \<open>shopDomain\<close> and is a map from shop to
  document; \<open>OrderQueue\<close> is the list of its documents. No route deletes a document.
\<close>

record db =
  settingsColl :: "jstring \<rightharpoonup> globalSettings"
  queueColl :: "queueEntry list"

text \<open>
  What the handler cannot decide by itself is an input of the model: the outcome of the
  signature check, whether each database call rejects (and with which message), what
  the clock reads at each \<open>new Date()\<close>, and the case tables of the engine.
\<close>

datatype hmacOutcome = NoSecret | HashMatches | HashDiffers | HmacThrows jstring

record io =
  hmac :: hmacOutcome
  create_fault :: "jstring option"
  now_queued :: date
  findOne_fault :: "jstring option"
  now_created :: date
  now_processed :: date
  save_fault :: "jstring option"
  save_error_fault :: "jstring option"
  unicodeUpper :: "jstring \<Rightarrow> jstring"

definition findOne :: "jstring option \<Rightarrow> db \<Rightarrow> jstring \<Rightarrow> jstring + globalSettings option" where
  "findOne fault d shop = (case fault of Some m \<Rightarrow> Inl m | None \<Rightarrow> Inr (settingsColl d shop))"

text \<open>
  \<open>queueEntry.save()\<close>: rewrite the stored document with this \<open>_id\<close>. The
  library rejects the call when the collection holds no such document; its message is
  abbreviated here.
\<close>

definition saveEntry :: "jstring option \<Rightarrow> db \<Rightarrow> queueEntry \<Rightarrow> jstring + db" where
  "saveEntry fault d q =
     (case fault of
        Some m \<Rightarrow> Inl m
      | None \<Rightarrow>
          if qid q < length (queueColl d)
          then Inr (d\<lparr>queueColl := (queueColl d)[qid q := q]\<rparr>)
          else Inl (str ''No document found''))"

text \<open>
  \<open>OrderQueue.create\<close> (lines 309 to 324): the new document gets its \<open>_id\<close> and the
  schema default of \<open>createdAt\<close>.
\<close>

definition createEntry ::
  "jstring option \<Rightarrow> date \<Rightarrow> db \<Rightarrow> queueEntry \<Rightarrow> jstring + (queueEntry \<times> db)" where
  "createEntry fault now d q =
     (case fault of
        Some m \<Rightarrow> Inl m
      | None \<Rightarrow>
          (let q' = q\<lparr>qid := length (queueColl d), createdAt := now\<rparr>
           in Inr (q', d\<lparr>queueColl := queueColl d @ [q']\<rparr>)))"

section \<open>generateProductionFile (lines 343 to 419)\<close>

text \<open>The object pushed at lines 391 to 399.\<close>

definition mkLineItem :: "customizedItem \<Rightarrow> customization list \<Rightarrow> productionLineItem" where
  "mkLineItem item customizations =
     \<lparr>li_id = lineItemId item, li_product_id = productId item, li_variant_id = variantId item,
      li_sku = sku item, li_title = title item, li_quantity = quantity item,
      li_customizations = customizations\<rparr>"

text \<open>Lines 360 to 400: the body of the loop over the items of the record.\<close>

definition processItem ::
  "(jstring \<Rightarrow> jstring) \<Rightarrow> globalSettings option \<Rightarrow> customizedItem \<Rightarrow> productionLineItem list
     \<Rightarrow> jstring + productionLineItem list" where
  "processItem up settings item lis =
     (case itemCustomizations up settings (properties item) of
        Inl m \<Rightarrow> Inl m
      | Inr customizations \<Rightarrow>
          if 0 < length customizations
          then Inr (lis @ [mkLineItem item customizations])
          else Inr lis)"

text \<open>
  Lines 350 to 401: \<open>productionData\<close> when the loop over the items has ended, or the
  exception that leaves the loop.
\<close>

definition buildProductionData ::
  "(jstring \<Rightarrow> jstring) \<Rightarrow> date \<Rightarrow> globalSettings option \<Rightarrow> queueEntry
     \<Rightarrow> jstring + productionData" where
  "buildProductionData up now settings q =
     (case forEach (processItem up settings) (items q) [] of
        Inl m \<Rightarrow> Inl m
      | Inr lis \<Rightarrow>
          Inr \<lparr>order_id = orderId q, order_number = orderNumber q, created_at = now,
               pd_customer = od_customer (orderData q), pd_line_items = lis\<rparr>)"

text \<open>
  The \<open>try\<close> block (lines 345 to 411). \<open>Inl\<close> is an exception: its message and the
  in-memory document as the block left it.
\<close>

definition tryBlock ::
  "io \<Rightarrow> db \<Rightarrow> queueEntry \<Rightarrow> (jstring \<times> queueEntry) + (productionData \<times> queueEntry \<times> db)" where
  "tryBlock e d q =
     (case findOne (findOne_fault e) d (shopDomain q) of
        Inl m \<Rightarrow> Inl (m, q)
      | Inr settings \<Rightarrow>
          (case buildProductionData (unicodeUpper e) (now_created e) settings q of
             Inl m \<Rightarrow> Inl (m, q)
           | Inr productionData \<Rightarrow>
               (let q' = q\<lparr>status := Completed, processedAt := Some (now_processed e)\<rparr>
                in case saveEntry (save_fault e) d q' of
                     Inl m \<Rightarrow> Inl (m, q')
                   | Inr d' \<Rightarrow> Inr (productionData, q', d'))))"

text \<open>
  The result of a call: whether the returned promise rejects (\<open>Inl\<close> the message), the
  in-memory document and the database afterwards, and what line 408 wrote to the log.
\<close>

record genResult =
  gen_outcome :: "jstring + unit"
  gen_entry :: queueEntry
  gen_db :: db
  gen_log :: "productionData option"

definition generateProductionFile :: "io \<Rightarrow> db \<Rightarrow> queueEntry \<Rightarrow> genResult" where
  "generateProductionFile e d q =
     (case tryBlock e d q of
        Inr (productionData, q', d') \<Rightarrow>
          \<lparr>gen_outcome = Inr (), gen_entry = q', gen_db = d', gen_log = Some productionData\<rparr>
      | Inl (m, q1) \<Rightarrow>
          (let q2 = q1\<lparr>status := Error, error := Some m\<rparr>
           in case saveEntry (save_error_fault e) d q2 of
                Inl m2 \<Rightarrow> \<lparr>gen_outcome = Inl m2, gen_entry = q2, gen_db = d, gen_log = None\<rparr>
              | Inr d' \<Rightarrow> \<lparr>gen_outcome = Inr (), gen_entry = q2, gen_db = d', gen_log = None\<rparr>))"

section \<open>The order webhook (lines 253 to 340)\<close>

text \<open>Line 316: the customer's name, from the template string.\<close>

definition customerName :: "orderCustomer option \<Rightarrow> jstring" where
  "customerName c =
     trim (or_literal (case c of None \<Rightarrow> None | Some cu \<Rightarrow> first_name cu) [] @ str '' '' @
           or_literal (case c of None \<Rightarrow> None | Some cu \<Rightarrow> last_name cu) [])"

text \<open>The argument of \<open>OrderQueue.create\<close> (lines 309 to 324).\<close>

definition newEntry :: "jstring \<Rightarrow> shopifyOrder \<Rightarrow> customizedItem list \<Rightarrow> queueEntry" where
  "newEntry shop ord customizedItems =
     \<lparr>qid = 0, shopDomain = shop, orderId = id_toString ord, orderNumber = order_name ord,
      orderData = \<lparr>od_customer = \<lparr>email = order_email ord,
                                   cust_name = customerName (order_customer ord)\<rparr>,
                   od_createdAt = order_created_at ord\<rparr>,
      items = customizedItems, status = Pending, processedAt = None, error = None,
      createdAt = 0\<rparr>"

datatype response = OK200 | Unauthorized401 | Error500 jstring

record webhookResult =
  wh_response :: response
  wh_db :: db
  wh_log :: "productionData option"

definition webhook :: "io \<Rightarrow> jstring \<Rightarrow> shopifyOrder \<Rightarrow> db \<Rightarrow> webhookResult" where
  "webhook e shop ord d =
     (case hmac e of
        HashDiffers \<Rightarrow> \<lparr>wh_response = Unauthorized401, wh_db = d, wh_log = None\<rparr>
      | HmacThrows m \<Rightarrow> \<lparr>wh_response = Error500 m, wh_db = d, wh_log = None\<rparr>
      | _ \<Rightarrow>
          (let customizedItems = extractCustomizedItems (line_items ord)
           in if 0 < length customizedItems
              then (case createEntry (create_fault e) (now_queued e) d
                           (newEntry shop ord customizedItems) of
                      Inl m \<Rightarrow> \<lparr>wh_response = Error500 m, wh_db = d, wh_log = None\<rparr>
                    | Inr (queueEntry, d1) \<Rightarrow>
                        (let r = generateProductionFile e d1 queueEntry
                         in case gen_outcome r of
                              Inl m \<Rightarrow> \<lparr>wh_response = Error500 m, wh_db = gen_db r,
                                        wh_log = gen_log r\<rparr>
                            | Inr _ \<Rightarrow> \<lparr>wh_response = OK200, wh_db = gen_db r,
                                        wh_log = gen_log r\<rparr>))
              else \<lparr>wh_response = OK200, wh_db = d, wh_log = None\<rparr>))"

section \<open>Reading the settings of a shop (lines 123 to 184)\<close>

text \<open>
  \<open>GlobalSettings.create\<close>: the unique index rejects a second document for a shop.
\<close>

definition createSettings :: "jstring option \<Rightarrow> db \<Rightarrow> globalSettings \<Rightarrow> jstring + db" where
  "createSettings fault d s =
     (case fault of
        Some m \<Rightarrow> Inl m
      | None \<Rightarrow>
          if settingsColl d (gs_shopDomain s) = None
          then Inr (d\<lparr>settingsColl := (settingsColl d)(gs_shopDomain s \<mapsto> s)\<rparr>)
          else Inl (str ''E11000 duplicate key error''))"

record settingsIo =
  gs_findOne_fault :: "jstring option"
  gs_create_fault :: "jstring option"
  gs_now :: date

datatype settingsResponse = Json globalSettings | Status500 jstring

definition getSettings :: "settingsIo \<Rightarrow> jstring \<Rightarrow> db \<Rightarrow> settingsResponse \<times> db" where
  "getSettings e shop d =
     (case findOne (gs_findOne_fault e) d shop of
        Inl m \<Rightarrow> (Status500 m, d)
      | Inr (Some settings) \<Rightarrow> (Json settings, d)
      | Inr None \<Rightarrow>
          (case createSettings (gs_create_fault e) d (defaultSettings shop (gs_now e)) of
             Inl m \<Rightarrow> (Status500 m, d)
           | Inr d' \<Rightarrow> (Json (defaultSettings shop (gs_now e)), d')))"


text \<open>
  The font rule as claim C4 words it: the label is the value of \<open>Font Style\<close>, or
  \<open>Standard Font (Free)\<close> when that property is absent; the font is the first one whose
  display label equals the label, else the first font of the catalog; with no font the
  code is \<open>standard\<close>.
\<close>

definition fontCodeAsClaimed :: "globalSettings \<Rightarrow> propsObject \<Rightarrow> jstring" where
  "fontCodeAsClaimed s props =
     (let label = (case getProp props (str ''Font Style'') of
                     JUndefined \<Rightarrow> JStr (str ''Standard Font (Free)'')
                   | v \<Rightarrow> v)
      in case filter (labelled label) (fonts s) of
           f # _ \<Rightarrow> or_literal (f_code f) (str ''standard'')
         | [] \<Rightarrow>
             (case fonts s of
                f # _ \<Rightarrow> or_literal (f_code f) (str ''standard'')
              | [] \<Rightarrow> str ''standard''))"

section \<open>Requests and runs\<close>

text \<open>
  The requests that write to the two collections. A read of the settings (lines 123 to
  184) may create the default catalog. The update of the settings (lines 187 to 203)
  writes a document built from the request body into the settings collection and nothing
  else; the model lets that collection become any other. The order webhook awaits the
  database twice, so the state after its \<open>OrderQueue.create\<close> (line 324) can be
  observed before the handler ends: \<open>afterCreate\<close> is that state. The remaining
  routes touch neither collection or only read.
\<close>

definition afterCreate :: "io \<Rightarrow> jstring \<Rightarrow> shopifyOrder \<Rightarrow> db \<Rightarrow> db" where
  "afterCreate e shop ord d =
     (case hmac e of
        HashDiffers \<Rightarrow> d
      | HmacThrows m \<Rightarrow> d
      | _ \<Rightarrow>
          (let customizedItems = extractCustomizedItems (line_items ord)
           in if 0 < length customizedItems
              then (case createEntry (create_fault e) (now_queued e) d
                           (newEntry shop ord customizedItems) of
                      Inl m \<Rightarrow> d
                    | Inr (queueEntry, d1) \<Rightarrow> d1)
              else d))"

datatype request =
    SettingsRead settingsIo jstring
  | SettingsWritten "jstring \<rightharpoonup> globalSettings"
  | OrderQueued io jstring shopifyOrder
  | OrderHandled io jstring shopifyOrder

fun step :: "request \<Rightarrow> db \<Rightarrow> db" where
  "step (SettingsRead e shop) d = snd (getSettings e shop d)"
| "step (SettingsWritten g) d = d\<lparr>settingsColl := g\<rparr>"
| "step (OrderQueued e shop ord) d = afterCreate e shop ord d"
| "step (OrderHandled e shop ord) d = wh_db (webhook e shop ord d)"

definition emptyDb :: db where
  "emptyDb = \<lparr>settingsColl = Map.empty, queueColl = []\<rparr>"

text \<open>The database after a sequence of requests, starting with empty collections.\<close>

definition run :: "request list \<Rightarrow> db" where
  "run rs = fold step rs emptyDb"

text \<open>Every stored intake record is pending, completed or in error.\<close>

definition statusOk :: "db \<Rightarrow> bool" where
  "statusOk d =
     list_all (\<lambda>q. status q = Pending \<or> status q = Completed \<or> status q = Error) (queueColl d)"

section \<open>Example data\<close>

text \<open>
  A stand-in for the case tables of the engine in the closed examples below; the examples
  are ASCII text, on which it is never called.
\<close>

definition exampleUpper :: "jstring \<Rightarrow> jstring" where
  "exampleUpper s = s"

definition exampleProps :: propsObject where
  "exampleProps =
     \<lparr>own = [str ''Player Name'' \<mapsto> JStr (str ''SMITH''),
             str ''Placement'' \<mapsto> JStr (str ''Chest, Back'')],
      proto = ObjectPrototype\<rparr>"

definition exampleSettings :: globalSettings where
  "exampleSettings = defaultSettings (str ''shop.example'') 1000"

definition exampleItem :: customizedItem where
  "exampleItem =
     \<lparr>lineItemId = JNum 11, productId = JNum 22, variantId = JNum 33,
      sku = JStr (str ''JERSEY-M''), title = JStr (str ''Jersey''), quantity = JNum 1,
      properties = exampleProps\<rparr>"

definition exampleEntry :: queueEntry where
  "exampleEntry =
     \<lparr>qid = 0, shopDomain = str ''shop.example'', orderId = str ''1001'',
      orderNumber = Some (str ''#1001''),
      orderData = \<lparr>od_customer = \<lparr>email = JStr (str ''a@b.example''),
                                   cust_name = str ''Ann Lee''\<rparr>,
                   od_createdAt = JStr (str ''2024-01-01'')\<rparr>,
      items = [exampleItem], status = Pending, processedAt = None, error = None,
      createdAt = 2000\<rparr>"

definition exampleDb :: db where
  "exampleDb =
     \<lparr>settingsColl = [str ''shop.example'' \<mapsto> exampleSettings], queueColl = [exampleEntry]\<rparr>"

definition exampleIo :: io where
  "exampleIo =
     \<lparr>hmac = NoSecret, create_fault = None, now_queued = 2000, findOne_fault = None,
      now_created = 3000, now_processed = 4000, save_fault = None, save_error_fault = None,
      unicodeUpper = exampleUpper\<rparr>"

definition varsityProps :: propsObject where
  "varsityProps =
     \<lparr>own = [str ''Custom Text'' \<mapsto> JStr (str ''go''), str ''Placement'' \<mapsto> JStr (str ''Back''),
             str ''Font Style'' \<mapsto> JStr (str ''Varsity Style (+$3)'')],
      proto = ObjectPrototype\<rparr>"

definition varsityBack :: customization where
  "varsityBack =
     \<lparr>c_type = str ''text'', c_value = str ''GO'', c_placement = Some (str ''back''),
      c_font = str ''varsity'', c_color = str ''white'',
      c_coordinates = \<lparr>coord_x = Some 360, coord_y = Some 300, maxWidth = Some 280,
                       maxHeight = Some 100, rotation = None\<rparr>\<rparr>"

text \<open>A catalog whose first font is not the standard one, and a request with an empty font style.\<close>

definition swappedSettings :: globalSettings where
  "swappedSettings =
     exampleSettings\<lparr>fonts :=
       [\<lparr>f_id = Some 2, f_name = Some (str ''Varsity''), f_code = Some (str ''varsity''),
         f_price = Some 3, fontFile = Some (str ''Impact''),
         displayName = Some (str ''Varsity Style (+$3)'')\<rparr>,
        \<lparr>f_id = Some 1, f_name = Some (str ''Standard''), f_code = Some (str ''standard''),
         f_price = Some 0, fontFile = Some (str ''Arial''),
         displayName = Some (str ''Standard Font (Free)'')\<rparr>]\<rparr>"

definition emptyStyleProps :: propsObject where
  "emptyStyleProps =
     \<lparr>own = [str ''Custom Text'' \<mapsto> JStr (str ''go''), str ''Placement'' \<mapsto> JStr (str ''Back''),
             str ''Font Style'' \<mapsto> JStr []],
      proto = ObjectPrototype\<rparr>"

definition standardBack :: customization where
  "standardBack = varsityBack\<lparr>c_font := str ''standard''\<rparr>"

definition collarProps :: propsObject where
  "collarProps =
     \<lparr>own = [str ''Player Name'' \<mapsto> JStr (str ''Smith''),
             str ''Placement'' \<mapsto> JStr (str ''Collar, Back'')],
      proto = ObjectPrototype\<rparr>"

definition collarItem :: customizedItem where
  "collarItem =
     exampleItem\<lparr>properties :=
       \<lparr>own = [str ''Player Name'' \<mapsto> JStr (str ''Smith''),
               str ''Placement'' \<mapsto> JStr (str ''Collar'')],
        proto = ObjectPrototype\<rparr>\<rparr>"

definition collarEntry :: queueEntry where
  "collarEntry = exampleEntry\<lparr>items := [collarItem, exampleItem]\<rparr>"

text \<open>A candidate whose text is a number, and one whose placement is an array.\<close>

definition numberProps :: propsObject where
  "numberProps =
     \<lparr>own = [str ''Jersey Number'' \<mapsto> JNum 23, str ''Placement'' \<mapsto> JStr (str ''Collar, Back'')],
      proto = ObjectPrototype\<rparr>"

definition numberEntry :: queueEntry where
  "numberEntry = exampleEntry\<lparr>items := [exampleItem\<lparr>properties := numberProps\<rparr>]\<rparr>"

definition arrayProps :: propsObject where
  "arrayProps =
     \<lparr>own = [str ''Custom Text'' \<mapsto> JStr (str ''x''),
             str ''Placement'' \<mapsto> JArr [JStr (str ''Chest'')]],
      proto = ObjectPrototype\<rparr>"

definition arrayEntry :: queueEntry where
  "arrayEntry = exampleEntry\<lparr>items := [exampleItem\<lparr>properties := arrayProps\<rparr>]\<rparr>"

definition arrayDb :: db where
  "arrayDb = \<lparr>settingsColl = Map.empty, queueColl = [arrayEntry]\<rparr>"

definition protoItem :: lineItem where
  "protoItem =
     \<lparr>item_id = JNum 11, product_id = JNum 22, variant_id = JNum 33,
      item_sku = JStr (str ''JERSEY-M''), item_title = JStr (str ''Jersey''),
      item_quantity = JNum 1,
      item_properties =
        Some [(str ''__proto__'', JStr (str ''gift'')), (str ''Custom Text'', JStr (str ''Hi''))]\<rparr>"

definition laterIo :: io where
  "laterIo = exampleIo\<lparr>now_created := 3500, now_processed := 4500\<rparr>"

text \<open>The record and the database as the first compilation leaves them.\<close>

definition laterEntry :: queueEntry where
  "laterEntry = exampleEntry\<lparr>status := Completed, processedAt := Some 4000\<rparr>"

definition laterDb :: db where
  "laterDb = exampleDb\<lparr>queueColl := [laterEntry]\<rparr>"

definition failingIo :: io where
  "failingIo = exampleIo\<lparr>findOne_fault := Some (str ''db down'')\<rparr>"

definition brokenIo :: io where
  "brokenIo =
     exampleIo\<lparr>findOne_fault := Some (str ''db down''), save_error_fault := Some (str ''db down'')\<rparr>"

definition exampleOrder :: shopifyOrder where
  "exampleOrder =
     \<lparr>id_toString = str ''1001'', order_name = Some (str ''#1001''),
      order_email = JStr (str ''a@b.example''),
      order_customer = Some \<lparr>first_name = Some (str ''Ann''), last_name = Some (str ''Lee'')\<rparr>,
      order_created_at = JStr (str ''2024-01-01''),
      line_items =
        [\<lparr>item_id = JNum 11, product_id = JNum 22, variant_id = JNum 33,
          item_sku = JStr (str ''JERSEY-M''), item_title = JStr (str ''Jersey''),
          item_quantity = JNum 1,
          item_properties =
            Some [(str ''Player Name'', JStr (str ''SMITH'')),
                  (str ''Placement'', JStr (str ''Chest, Back''))]\<rparr>]\<rparr>"

definition noCatalogDb :: db where
  "noCatalogDb = \<lparr>settingsColl = Map.empty, queueColl = [exampleEntry]\<rparr>"


definition handledEntry :: queueEntry where
  "handledEntry =
     (newEntry (str ''shop.example'') exampleOrder [exampleItem])
       \<lparr>qid := 0, createdAt := 2000, status := Completed, processedAt := Some 4000\<rparr>"

section \<open>Strings\<close>

lemma of_char_less: "(of_char c :: nat) < 65536"
proof -
  have "(of_char c :: nat) mod 256 < 256"
    by (rule mod_less_divisor) simp
  then have "(of_char c :: nat) < 256"
    by simp
  also have "(256 :: nat) < 65536"
    by simp
  finally show ?thesis .
qed

lemma inj_code_unit: "inj (\<lambda>c::char. (of_nat (of_char c) :: 16 word))"
proof (rule injI)
  fix x y :: char
  assume "(of_nat (of_char x) :: 16 word) = of_nat (of_char y)"
  then have "unat (of_nat (of_char x) :: 16 word) = unat (of_nat (of_char y) :: 16 word)"
    by simp
  then have "(of_char x :: nat) mod 65536 = of_char y mod 65536"
    by (simp add: unat_of_nat)
  then have "(of_char x :: nat) = of_char y"
    by (simp only: mod_less [OF of_char_less])
  then show "x = y"
    by simp
qed

lemma str_inject [simp]: "str a = str b \<longleftrightarrow> a = b"
  by (simp add: str_def inj_map_eq_map [OF inj_code_unit])

lemma str_Nil [simp]: "str s = [] \<longleftrightarrow> s = []" and Nil_str [simp]: "[] = str s \<longleftrightarrow> s = []"
  by (auto simp: str_def)

section \<open>Customizations of one item\<close>

lemma forEach_pushCustomization:
  "forEach (pushCustomization up st (JStr t) fnt) names acc =
     Inr (acc @ concat (map (\<lambda>n. case findPlacement st n of None \<Rightarrow> []
                                   | Some p \<Rightarrow> [customizationOf up t fnt p]) names))"
  by (induction names arbitrary: acc)
     (simp_all add: pushCustomization_def mkCustomization_def split: option.split)

lemma forEach_unmatched:
  "\<forall>n \<in> set names. findPlacement st n = None \<Longrightarrow>
   forEach (pushCustomization up st text fnt) names acc = Inr acc"
  by (induction names arbitrary: acc) (simp_all add: pushCustomization_def)

lemma truthy_JStr [simp]: "truthy (JStr s) \<longleftrightarrow> s \<noteq> []"
  by (simp add: truthy_def)

lemma not_truthy_JUndefined [simp]: "\<not> truthy JUndefined"
  by (simp add: truthy_def)

lemma itemCustomizations_strings:
  "customText props = JStr t \<Longrightarrow> placementNames props = Inr names \<Longrightarrow>
   itemCustomizations up st props =
     Inr (if t \<noteq> []
          then concat (map (\<lambda>n. case findPlacement st n of None \<Rightarrow> []
                                  | Some p \<Rightarrow> [customizationOf up t
                                        (resolveFont st (fontDisplay props)) p]) names)
          else [])"
  by (cases "names = []")
     (simp_all add: itemCustomizations_def forEach_pushCustomization del: forEach.simps)

lemma hasCustomization_iff: "hasCustomization props \<longleftrightarrow> truthy (customText props)"
  by (simp add: hasCustomization_def customText_def js_or_def)

lemma hasCustomization_keys:
  "hasCustomization props \<longleftrightarrow>
     (\<exists>k \<in> {str ''Custom Text'', str ''Player Name'', str ''Jersey Number'', str ''Custom Message''}.
        truthy (getProp props k))"
  by (auto simp: hasCustomization_def js_or_def split: if_splits)


lemma placementNames_string:
  "placementIsString props \<Longrightarrow> \<exists>names. placementNames props = Inr names"
  by (auto simp: placementIsString_def placementNames_def Let_def split: jsval.splits)

lemma textIsString_D: "textIsString props \<Longrightarrow> \<exists>t. customText props = JStr t"
  by (auto simp: textIsString_def split: jsval.splits)

text \<open>
  Claim C1. With the default catalog, the property object
  \<open>{"Player Name": "SMITH", "Placement": "Chest, Back"}\<close> yields exactly two
  customizations, in the order of the request: one for the chest and one for the back,
  each with value SMITH, font code standard, color white and the geometry of its
  placement. The shop and the creation time of the catalog do not matter, nor do the
  case tables of the engine.
\<close>

theorem smith_chest_back:
  "itemCustomizations up (Some (defaultSettings shop now))
     \<lparr>own = [str ''Player Name'' \<mapsto> JStr (str ''SMITH''),
             str ''Placement'' \<mapsto> JStr (str ''Chest, Back'')],
      proto = ObjectPrototype\<rparr> =
   Inr [\<lparr>c_type = str ''text'', c_value = str ''SMITH'', c_placement = Some (str ''chest''),
         c_font = str ''standard'', c_color = str ''white'',
         c_coordinates = \<lparr>coord_x = Some 360, coord_y = Some 250, maxWidth = Some 200,
                          maxHeight = Some 60, rotation = None\<rparr>\<rparr>,
        \<lparr>c_type = str ''text'', c_value = str ''SMITH'', c_placement = Some (str ''back''),
         c_font = str ''standard'', c_color = str ''white'',
         c_coordinates = \<lparr>coord_x = Some 360, coord_y = Some 300, maxWidth = Some 280,
                          maxHeight = Some 100, rotation = None\<rparr>\<rparr>]"
proof -
  let ?props = "\<lparr>own = [str ''Player Name'' \<mapsto> JStr (str ''SMITH''),
             str ''Placement'' \<mapsto> JStr (str ''Chest, Back'')],
      proto = ObjectPrototype\<rparr>"
  have names: "placementNames ?props = Inr [str ''Chest'', str ''Back'']"
    by (simp add: placementNames_def getProp_def Let_def)
       (simp add: split_def trim_def isWhiteSpace_def str_def)
  have ctext: "customText ?props = JStr (str ''SMITH'')"
    by (simp add: customText_def getProp_def inheritedProp_def js_or_def)
  have fnt: "resolveFont (Some (defaultSettings shop now)) (fontDisplay ?props) =
      Some (hd defaultFonts)"
    by (simp add: fontDisplay_def getProp_def inheritedProp_def js_or_def resolveFont_def
        defaultSettings_def defaultFonts_def labelled_def)
  have upper: "toUpperCase up (str ''SMITH'') = str ''SMITH''"
    by (simp add: toUpperCase_def asciiUpper_def str_def)
  note ic = itemCustomizations_strings [OF ctext names, of up "Some (defaultSettings shop now)",
      unfolded fnt]
  show ?thesis
    by (simp add: ic)
       (simp add: findPlacement_def defaultSettings_def defaultPlacements_def customizationOf_def
          upper fontCode_def defaultFonts_def or_literal_def)
qed



lemma find_as_filter:
  "List.find P xs = (case filter P xs of [] \<Rightarrow> None | x # _ \<Rightarrow> Some x)"
  by (induction xs) simp_all

lemma forEach_c_font:
  "forEach (pushCustomization up st text fnt) names acc = Inr cs \<Longrightarrow> c \<in> set cs \<Longrightarrow>
   c \<in> set acc \<or> c_font c = fontCode fnt"
proof (induction names arbitrary: acc)
  case Nil
  then show ?case by simp
next
  case (Cons n names)
  from Cons.prems(1) obtain acc' where
    step: "pushCustomization up st text fnt n acc = Inr acc'" and
    rest: "forEach (pushCustomization up st text fnt) names acc' = Inr cs"
    by (auto split: sum.splits)
  from Cons.IH [OF rest Cons.prems(2)] have "c \<in> set acc' \<or> c_font c = fontCode fnt" .
  moreover from step have "c \<in> set acc' \<Longrightarrow> c \<in> set acc \<or> c_font c = fontCode fnt"
    by (auto simp: pushCustomization_def mkCustomization_def customizationOf_def
        split: option.splits sum.splits jsval.splits)
  ultimately show ?case by blast
qed

lemma c_font_itemCustomizations:
  "itemCustomizations up st props = Inr cs \<Longrightarrow> c \<in> set cs \<Longrightarrow>
   c_font c = fontCode (resolveFont st (fontDisplay props))"
  by (auto simp: itemCustomizations_def Let_def dest: forEach_c_font
      split: sum.splits if_splits)

lemma fontDisplay_cases:
  "fontDisplay props =
     (if truthy (getProp props (str ''Font Style'')) then getProp props (str ''Font Style'')
      else JStr (str ''Standard Font (Free)''))"
  by (simp add: fontDisplay_def js_or_def)

lemma fontCode_resolveFont:
  "fontCode (resolveFont (Some s) label) =
     (case filter (\<lambda>f. case displayName f of None \<Rightarrow> False | Some l \<Rightarrow> label = JStr l) (fonts s) of
        f # _ \<Rightarrow> (case f_code f of None \<Rightarrow> str ''standard''
                   | Some code \<Rightarrow> if code = [] then str ''standard'' else code)
      | [] \<Rightarrow>
          (case fonts s of
             f # _ \<Rightarrow> (case f_code f of None \<Rightarrow> str ''standard''
                        | Some code \<Rightarrow> if code = [] then str ''standard'' else code)
           | [] \<Rightarrow> str ''standard''))"
proof -
  have "labelled label = (\<lambda>f. case displayName f of None \<Rightarrow> False | Some l \<Rightarrow> label = JStr l)"
    by (auto simp: labelled_def fun_eq_iff split: jsval.splits option.splits)
  then show ?thesis
    by (simp add: fontCode_def resolveFont_def find_as_filter or_literal_def split: list.split)
qed

text \<open>
  Claim C4, as amended. Every customization emitted for a property object carries the
  code of the font chosen as follows. The label is the value of \<open>Font Style\<close>, or
  \<open>Standard Font (Free)\<close> when that value is absent or falsy (the empty string
  included). The font is the first font of the catalog whose display label equals the
  label exactly; when no label matches, it is the first font of the catalog; when the
  catalog has no font, the code is the literal \<open>standard\<close>. A chosen font without a
  code (absent or empty) also gives \<open>standard\<close>.
\<close>

theorem font_resolution:
  "itemCustomizations up (Some s) props = Inr cs \<longrightarrow>
   (\<forall>c \<in> set cs.
      c_font c =
        (let label = (if truthy (getProp props (str ''Font Style''))
                      then getProp props (str ''Font Style'')
                      else JStr (str ''Standard Font (Free)''))
         in case filter (\<lambda>f. case displayName f of None \<Rightarrow> False | Some l \<Rightarrow> label = JStr l)
                   (fonts s) of
              f # _ \<Rightarrow> (case f_code f of None \<Rightarrow> str ''standard''
                         | Some code \<Rightarrow> if code = [] then str ''standard'' else code)
            | [] \<Rightarrow>
                (case fonts s of
                   f # _ \<Rightarrow> (case f_code f of None \<Rightarrow> str ''standard''
                              | Some code \<Rightarrow> if code = [] then str ''standard'' else code)
                 | [] \<Rightarrow> str ''standard'')))"
proof (intro impI ballI)
  fix c
  assume "itemCustomizations up (Some s) props = Inr cs" and "c \<in> set cs"
  then have "c_font c = fontCode (resolveFont (Some s) (fontDisplay props))"
    by (rule c_font_itemCustomizations)
  then show "c_font c =
        (let label = (if truthy (getProp props (str ''Font Style''))
                      then getProp props (str ''Font Style'')
                      else JStr (str ''Standard Font (Free)''))
         in case filter (\<lambda>f. case displayName f of None \<Rightarrow> False | Some l \<Rightarrow> label = JStr l)
                   (fonts s) of
              f # _ \<Rightarrow> (case f_code f of None \<Rightarrow> str ''standard''
                         | Some code \<Rightarrow> if code = [] then str ''standard'' else code)
            | [] \<Rightarrow>
                (case fonts s of
                   f # _ \<Rightarrow> (case f_code f of None \<Rightarrow> str ''standard''
                              | Some code \<Rightarrow> if code = [] then str ''standard'' else code)
                 | [] \<Rightarrow> str ''standard''))"
    by (simp only: fontCode_resolveFont fontDisplay_cases Let_def)
qed

lemma back_customizations:
  assumes "getProp props (str ''Placement'') = JStr (str ''Back'')"
    and "customText props = JStr (str ''go'')"
    and "placements s = defaultPlacements"
  shows "itemCustomizations exampleUpper (Some s) props =
     Inr [varsityBack\<lparr>c_font := fontCode (resolveFont (Some s) (fontDisplay props))\<rparr>]"
proof -
  have names: "placementNames props = Inr [str ''Back'']"
    using assms(1)
    by (simp add: placementNames_def Let_def) (simp add: split_def trim_def isWhiteSpace_def str_def)
  have upper: "toUpperCase exampleUpper (str ''go'') = str ''GO''"
    by (simp add: toUpperCase_def asciiUpper_def str_def)
  show ?thesis
    by (simp add: itemCustomizations_strings [OF assms(2) names])
       (simp add: findPlacement_def assms(3) defaultPlacements_def customizationOf_def upper
          varsityBack_def)
qed

lemma varsity_customizations:
  "itemCustomizations exampleUpper (Some exampleSettings) varsityProps = Inr [varsityBack]"
proof -
  have "fontCode (resolveFont (Some exampleSettings) (fontDisplay varsityProps)) = str ''varsity''"
    by (simp add: fontCode_resolveFont fontDisplay_cases varsityProps_def getProp_def
        exampleSettings_def defaultSettings_def defaultFonts_def)
  moreover have "getProp varsityProps (str ''Placement'') = JStr (str ''Back'')"
    "customText varsityProps = JStr (str ''go'')"
    "placements exampleSettings = defaultPlacements"
    by (simp_all add: varsityProps_def getProp_def customText_def js_or_def exampleSettings_def
        defaultSettings_def)
  ultimately show ?thesis
    by (simp add: back_customizations varsityBack_def)
qed

theorem font_resolution_witness:
  "itemCustomizations exampleUpper (Some exampleSettings) varsityProps = Inr [varsityBack] \<and>
   varsityBack \<in> set [varsityBack] \<and> c_font varsityBack = str ''varsity''"
proof -
  have mem: "varsityBack \<in> set [varsityBack]"
    by simp
  have "c_font varsityBack = str ''varsity''"
    using font_resolution [of exampleUpper exampleSettings varsityProps "[varsityBack]",
        rule_format, OF varsity_customizations mem]
    by (simp add: varsityBack_def)
  with varsity_customizations mem show ?thesis
    by simp
qed

text \<open>
  Claim C4 as stated fails: it takes the default label only when \<open>Font Style\<close> is
  absent. With \<open>Font Style\<close> present and empty, and a catalog whose first font is
  Varsity, no label equals the empty string, so the rule of the claim gives the first
  font, \<open>varsity\<close>; the code takes the default label and emits \<open>standard\<close>.
\<close>

theorem empty_font_style_counterexample:
  "getProp emptyStyleProps (str ''Font Style'') = JStr [] \<and>
   itemCustomizations exampleUpper (Some swappedSettings) emptyStyleProps = Inr [standardBack] \<and>
   c_font standardBack = str ''standard'' \<and>
   fontCodeAsClaimed swappedSettings emptyStyleProps = str ''varsity''"
proof (intro conjI)
  show style: "getProp emptyStyleProps (str ''Font Style'') = JStr []"
    by (simp add: emptyStyleProps_def getProp_def)
  have "fontCode (resolveFont (Some swappedSettings) (fontDisplay emptyStyleProps)) = str ''standard''"
    by (simp add: fontCode_resolveFont fontDisplay_cases style swappedSettings_def)
  moreover have "getProp emptyStyleProps (str ''Placement'') = JStr (str ''Back'')"
    "customText emptyStyleProps = JStr (str ''go'')"
    "placements swappedSettings = defaultPlacements"
    by (simp_all add: emptyStyleProps_def getProp_def customText_def js_or_def
        swappedSettings_def exampleSettings_def defaultSettings_def)
  ultimately show "itemCustomizations exampleUpper (Some swappedSettings) emptyStyleProps =
      Inr [standardBack]"
    by (simp add: back_customizations standardBack_def)
  show "c_font standardBack = str ''standard''"
    by (simp add: standardBack_def)
  show "fontCodeAsClaimed swappedSettings emptyStyleProps = str ''varsity''"
    by (simp add: fontCodeAsClaimed_def style labelled_def swappedSettings_def or_literal_def)
qed

section \<open>Properties of the production description\<close>

lemma matched_customizations:
  "list_all2 (\<lambda>n c. \<exists>p \<in> set (placements s). p_name p = Some n \<and> c = customizationOf up t fnt p)
     (filter (\<lambda>n. \<exists>p \<in> set (placements s). p_name p = Some n) names)
     (concat (map (\<lambda>n. case findPlacement (Some s) n of None \<Rightarrow> []
                              | Some p \<Rightarrow> [customizationOf up t fnt p]) names))"
proof (induction names)
  case Nil
  show ?case by simp
next
  case (Cons n names)
  show ?case
  proof (cases "findPlacement (Some s) n")
    case None
    then have "\<not> (\<exists>p \<in> set (placements s). p_name p = Some n)"
      by (simp add: findPlacement_def find_None_iff)
    with None Cons.IH show ?thesis by simp
  next
    case (Some p)
    then have "p \<in> set (placements s) \<and> p_name p = Some n"
      by (auto simp: findPlacement_def find_Some_iff)
    with Some Cons.IH show ?thesis by auto
  qed
qed

lemma itemCustomizations_typed:
  assumes "textIsString props" and "placementIsString props"
  shows "\<exists>cs. itemCustomizations up st props = Inr cs"
proof -
  from assms(1) obtain t where "customText props = JStr t"
    using textIsString_D by blast
  moreover from assms(2) obtain names where "placementNames props = Inr names"
    using placementNames_string by blast
  ultimately show ?thesis
    by (simp add: itemCustomizations_strings)
qed

lemma forEach_processItem:
  "\<forall>it \<in> set its. textIsString (properties it) \<and> placementIsString (properties it) \<Longrightarrow>
   forEach (processItem up st) its acc =
     Inr (acc @ map (\<lambda>it. mkLineItem it
                        (case itemCustomizations up st (properties it) of
                           Inl m \<Rightarrow> [] | Inr cs \<Rightarrow> cs))
                  (filter (\<lambda>it. itemCustomizations up st (properties it) \<noteq> Inr []) its))"
proof (induction its arbitrary: acc)
  case Nil
  show ?case by simp
next
  case (Cons it its)
  from Cons.prems obtain cs where cs: "itemCustomizations up st (properties it) = Inr cs"
    using itemCustomizations_typed [of "properties it" up st] by auto
  from Cons.prems have "\<forall>it \<in> set its. textIsString (properties it) \<and> placementIsString (properties it)"
    by simp
  note IH = Cons.IH [OF this]
  have step: "processItem up st it acc = Inr (if cs = [] then acc else acc @ [mkLineItem it cs])"
    by (simp add: processItem_def cs)
  show ?case
    by (simp add: step IH cs)
qed

lemma buildProductionData_typed:
  "\<forall>it \<in> set (items q). textIsString (properties it) \<and> placementIsString (properties it) \<Longrightarrow>
   buildProductionData up now st q =
     Inr \<lparr>order_id = orderId q, order_number = orderNumber q, created_at = now,
          pd_customer = od_customer (orderData q),
          pd_line_items =
            map (\<lambda>it. mkLineItem it
                    (case itemCustomizations up st (properties it) of
                       Inl m \<Rightarrow> [] | Inr cs \<Rightarrow> cs))
              (filter (\<lambda>it. itemCustomizations up st (properties it) \<noteq> Inr []) (items q))\<rparr>"
  by (simp add: buildProductionData_def forEach_processItem del: forEach.simps)

lemma generateProductionFile_success:
  "findOne_fault e = None \<Longrightarrow> save_fault e = None \<Longrightarrow> qid q < length (queueColl d) \<Longrightarrow>
   buildProductionData (unicodeUpper e) (now_created e) (settingsColl d (shopDomain q)) q = Inr pd \<Longrightarrow>
   generateProductionFile e d q =
     \<lparr>gen_outcome = Inr (),
      gen_entry = q\<lparr>status := Completed, processedAt := Some (now_processed e)\<rparr>,
      gen_db = d\<lparr>queueColl := (queueColl d)[qid q :=
                q\<lparr>status := Completed, processedAt := Some (now_processed e)\<rparr>]\<rparr>,
      gen_log = Some pd\<rparr>"
  by (simp add: generateProductionFile_def tryBlock_def findOne_def saveEntry_def Let_def)

lemma generateProductionFile_thrown:
  "findOne_fault e = None \<Longrightarrow> save_error_fault e = None \<Longrightarrow> qid q < length (queueColl d) \<Longrightarrow>
   buildProductionData (unicodeUpper e) (now_created e) (settingsColl d (shopDomain q)) q = Inl m \<Longrightarrow>
   generateProductionFile e d q =
     \<lparr>gen_outcome = Inr (),
      gen_entry = q\<lparr>status := Error, error := Some m\<rparr>,
      gen_db = d\<lparr>queueColl := (queueColl d)[qid q := q\<lparr>status := Error, error := Some m\<rparr>]\<rparr>,
      gen_log = None\<rparr>"
  by (simp add: generateProductionFile_def tryBlock_def findOne_def saveEntry_def Let_def)

text \<open>
  Claim C3, as amended. For a candidate (a property object that passes the test of line
  291) whose customization text is a string and whose \<open>Placement\<close> is a string or
  falsy, and a catalog, the customizations correspond one to one, in order, to the
  requested placement names that equal the name of a catalog placement: a name that
  equals none contributes nothing, and the others still produce their customization.
  When every item of the record is of that kind, the line items of the production
  description are those of the items with at least one customization, in order; an item
  without any is left out. Leaving items out is not an error: when the two database
  calls succeed the function returns normally, the record is completed and its error
  field is untouched.
\<close>

theorem unmatched_placements_skipped:
  "(hasCustomization props \<and> textIsString props \<and> placementIsString props \<longrightarrow>
      (\<exists>names cs.
         placementNames props = Inr names \<and>
         itemCustomizations up (Some s) props = Inr cs \<and>
         list_all2
           (\<lambda>n c. \<exists>p \<in> set (placements s).
                     p_name p = Some n \<and> c_placement c = p_code p \<and>
                     c_coordinates c = p_coordinates p \<and>
                     (\<exists>t. customText props = JStr t \<and> c_value c = toUpperCase up t))
           (filter (\<lambda>n. \<exists>p \<in> set (placements s). p_name p = Some n) names) cs)) \<and>
   ((\<forall>it \<in> set (items q). textIsString (properties it) \<and> placementIsString (properties it)) \<longrightarrow>
      (\<exists>pd. buildProductionData up now st q = Inr pd \<and>
            pd_line_items pd =
              map (\<lambda>it. mkLineItem it
                      (case itemCustomizations up st (properties it) of
                         Inl m \<Rightarrow> [] | Inr cs \<Rightarrow> cs))
                (filter (\<lambda>it. itemCustomizations up st (properties it) \<noteq> Inr []) (items q))) \<and>
      (findOne_fault e = None \<and> save_fault e = None \<and> qid q < length (queueColl d) \<longrightarrow>
         gen_outcome (generateProductionFile e d q) = Inr () \<and>
         status (gen_entry (generateProductionFile e d q)) = Completed \<and>
         error (gen_entry (generateProductionFile e d q)) = error q))"
proof (intro conjI impI)
  assume typed: "hasCustomization props \<and> textIsString props \<and> placementIsString props"
  then obtain t where t: "customText props = JStr t"
    using textIsString_D by blast
  from typed obtain names where names: "placementNames props = Inr names"
    using placementNames_string by blast
  from typed t have nonempty: "t \<noteq> []"
    by (simp add: hasCustomization_iff)
  let ?cs = "concat (map (\<lambda>n. case findPlacement (Some s) n of None \<Rightarrow> []
                | Some p \<Rightarrow> [customizationOf up t (resolveFont (Some s) (fontDisplay props)) p])
              names)"
  have result: "itemCustomizations up (Some s) props = Inr ?cs"
    using nonempty by (simp add: itemCustomizations_strings [OF t names])
  have "list_all2
      (\<lambda>n c. \<exists>p \<in> set (placements s). p_name p = Some n \<and>
          c = customizationOf up t (resolveFont (Some s) (fontDisplay props)) p)
      (filter (\<lambda>n. \<exists>p \<in> set (placements s). p_name p = Some n) names) ?cs"
    by (rule matched_customizations)
  then have "list_all2
      (\<lambda>n c. \<exists>p \<in> set (placements s).
                p_name p = Some n \<and> c_placement c = p_code p \<and>
                c_coordinates c = p_coordinates p \<and>
                (\<exists>t. customText props = JStr t \<and> c_value c = toUpperCase up t))
      (filter (\<lambda>n. \<exists>p \<in> set (placements s). p_name p = Some n) names) ?cs"
    by (rule list_all2_mono) (auto simp: customizationOf_def t)
  with names result show "\<exists>names cs.
         placementNames props = Inr names \<and>
         itemCustomizations up (Some s) props = Inr cs \<and>
         list_all2
           (\<lambda>n c. \<exists>p \<in> set (placements s).
                     p_name p = Some n \<and> c_placement c = p_code p \<and>
                     c_coordinates c = p_coordinates p \<and>
                     (\<exists>t. customText props = JStr t \<and> c_value c = toUpperCase up t))
           (filter (\<lambda>n. \<exists>p \<in> set (placements s). p_name p = Some n) names) cs"
    by blast
next
  assume typed: "\<forall>it \<in> set (items q). textIsString (properties it) \<and> placementIsString (properties it)"
  then show "\<exists>pd. buildProductionData up now st q = Inr pd \<and>
            pd_line_items pd =
              map (\<lambda>it. mkLineItem it
                      (case itemCustomizations up st (properties it) of
                         Inl m \<Rightarrow> [] | Inr cs \<Rightarrow> cs))
                (filter (\<lambda>it. itemCustomizations up st (properties it) \<noteq> Inr []) (items q))"
    by (simp add: buildProductionData_typed)
  assume ok: "findOne_fault e = None \<and> save_fault e = None \<and> qid q < length (queueColl d)"
  from typed obtain pd where
    "buildProductionData (unicodeUpper e) (now_created e) (settingsColl d (shopDomain q)) q = Inr pd"
    by (simp add: buildProductionData_typed)
  with ok have gen: "generateProductionFile e d q =
     \<lparr>gen_outcome = Inr (),
      gen_entry = q\<lparr>status := Completed, processedAt := Some (now_processed e)\<rparr>,
      gen_db = d\<lparr>queueColl := (queueColl d)[qid q :=
                q\<lparr>status := Completed, processedAt := Some (now_processed e)\<rparr>]\<rparr>,
      gen_log = Some pd\<rparr>"
    by (simp add: generateProductionFile_success)
  show "gen_outcome (generateProductionFile e d q) = Inr ()"
    by (simp add: gen)
  show "status (gen_entry (generateProductionFile e d q)) = Completed"
    by (simp add: gen)
  show "error (gen_entry (generateProductionFile e d q)) = error q"
    by (simp add: gen)
qed

lemma collarNames: "placementNames collarProps = Inr [str ''Collar'', str ''Back'']"
  by (simp add: placementNames_def collarProps_def getProp_def Let_def)
     (simp add: split_def trim_def isWhiteSpace_def str_def)

lemma example_typed:
  "textIsString exampleProps \<and> placementIsString exampleProps \<and>
   textIsString collarProps \<and> placementIsString collarProps \<and>
   textIsString (properties collarItem) \<and> placementIsString (properties collarItem)"
  by (simp add: textIsString_def placementIsString_def customText_def js_or_def getProp_def
      inheritedProp_def exampleProps_def collarProps_def collarItem_def)

lemma collar_only: "itemCustomizations up (Some exampleSettings) (properties collarItem) = Inr []"
proof -
  have names: "placementNames (properties collarItem) = Inr [str ''Collar'']"
    by (simp add: placementNames_def collarItem_def getProp_def Let_def)
       (simp add: split_def trim_def isWhiteSpace_def str_def)
  have ctext: "customText (properties collarItem) = JStr (str ''Smith'')"
    by (simp add: customText_def collarItem_def getProp_def inheritedProp_def js_or_def)
  show ?thesis
    by (simp add: itemCustomizations_strings [OF ctext names])
       (simp add: findPlacement_def exampleSettings_def defaultSettings_def defaultPlacements_def)
qed

lemma example_not_empty:
  "itemCustomizations up (Some exampleSettings) (properties exampleItem) \<noteq> Inr []"
proof -
  have names: "placementNames (properties exampleItem) = Inr [str ''Chest'', str ''Back'']"
    by (simp add: placementNames_def exampleItem_def exampleProps_def getProp_def Let_def)
       (simp add: split_def trim_def isWhiteSpace_def str_def)
  have ctext: "customText (properties exampleItem) = JStr (str ''SMITH'')"
    by (simp add: customText_def exampleItem_def exampleProps_def getProp_def inheritedProp_def
        js_or_def)
  show ?thesis
    by (simp add: itemCustomizations_strings [OF ctext names])
       (simp add: findPlacement_def exampleSettings_def defaultSettings_def defaultPlacements_def)
qed

theorem unmatched_placements_skipped_witness:
  "hasCustomization collarProps \<and> textIsString collarProps \<and> placementIsString collarProps \<and>
   placementNames collarProps = Inr [str ''Collar'', str ''Back''] \<and>
   filter (\<lambda>n. \<exists>p \<in> set (placements exampleSettings). p_name p = Some n)
     [str ''Collar'', str ''Back''] = [str ''Back''] \<and>
   (\<exists>cs. itemCustomizations exampleUpper (Some exampleSettings) collarProps = Inr cs \<and>
      list_all2
        (\<lambda>n c. \<exists>p \<in> set (placements exampleSettings).
                  p_name p = Some n \<and> c_placement c = p_code p \<and>
                  c_coordinates c = p_coordinates p \<and>
                  (\<exists>t. customText collarProps = JStr t \<and> c_value c = toUpperCase exampleUpper t))
        [str ''Back''] cs) \<and>
   list_all (\<lambda>it. textIsString (properties it) \<and> placementIsString (properties it))
     (items collarEntry) \<and>
   findOne_fault exampleIo = None \<and> save_fault exampleIo = None \<and>
   qid collarEntry < length (queueColl exampleDb) \<and>
   gen_outcome (generateProductionFile exampleIo exampleDb collarEntry) = Inr () \<and>
   status (gen_entry (generateProductionFile exampleIo exampleDb collarEntry)) = Completed \<and>
   error (gen_entry (generateProductionFile exampleIo exampleDb collarEntry)) = error collarEntry \<and>
   length (items collarEntry) = 2 \<and>
   (\<exists>pd. buildProductionData exampleUpper 3000 (Some exampleSettings) collarEntry = Inr pd \<and>
         length (pd_line_items pd) = 1)"
proof -
  have cand: "hasCustomization collarProps"
    by (simp add: hasCustomization_def collarProps_def js_or_def getProp_def inheritedProp_def)
  have typed1: "textIsString collarProps" and typed2: "placementIsString collarProps"
    using example_typed by simp_all
  have matched: "filter (\<lambda>n. \<exists>p \<in> set (placements exampleSettings). p_name p = Some n)
     [str ''Collar'', str ''Back''] = [str ''Back'']"
    by (simp add: exampleSettings_def defaultSettings_def defaultPlacements_def)
  have typed: "\<forall>it \<in> set (items collarEntry).
      textIsString (properties it) \<and> placementIsString (properties it)"
    using example_typed by (simp add: collarEntry_def exampleItem_def)
  then have typed_all: "list_all (\<lambda>it. textIsString (properties it) \<and> placementIsString (properties it))
     (items collarEntry)"
    by (simp add: list_all_iff)
  have ok: "findOne_fault exampleIo = None \<and> save_fault exampleIo = None \<and>
      qid collarEntry < length (queueColl exampleDb)"
    by (simp add: exampleIo_def collarEntry_def exampleEntry_def exampleDb_def)
  note inst = unmatched_placements_skipped [of collarProps exampleUpper exampleSettings
      collarEntry 3000 "Some exampleSettings" exampleIo exampleDb]
  from inst cand typed1 typed2 obtain names cs where
    names: "placementNames collarProps = Inr names" and
    cs: "itemCustomizations exampleUpper (Some exampleSettings) collarProps = Inr cs" and
    rel: "list_all2
        (\<lambda>n c. \<exists>p \<in> set (placements exampleSettings).
                  p_name p = Some n \<and> c_placement c = p_code p \<and>
                  c_coordinates c = p_coordinates p \<and>
                  (\<exists>t. customText collarProps = JStr t \<and> c_value c = toUpperCase exampleUpper t))
        (filter (\<lambda>n. \<exists>p \<in> set (placements exampleSettings). p_name p = Some n) names) cs"
    by blast
  from names have "names = [str ''Collar'', str ''Back'']"
    by (simp add: collarNames)
  with rel have "list_all2
        (\<lambda>n c. \<exists>p \<in> set (placements exampleSettings).
                  p_name p = Some n \<and> c_placement c = p_code p \<and>
                  c_coordinates c = p_coordinates p \<and>
                  (\<exists>t. customText collarProps = JStr t \<and> c_value c = toUpperCase exampleUpper t))
        [str ''Back''] cs"
    by (simp only: matched)
  with cs have first: "\<exists>cs. itemCustomizations exampleUpper (Some exampleSettings) collarProps = Inr cs \<and>
      list_all2
        (\<lambda>n c. \<exists>p \<in> set (placements exampleSettings).
                  p_name p = Some n \<and> c_placement c = p_code p \<and>
                  c_coordinates c = p_coordinates p \<and>
                  (\<exists>t. customText collarProps = JStr t \<and> c_value c = toUpperCase exampleUpper t))
        [str ''Back''] cs"
    by blast
  from inst typed ok have second:
    "gen_outcome (generateProductionFile exampleIo exampleDb collarEntry) = Inr () \<and>
     status (gen_entry (generateProductionFile exampleIo exampleDb collarEntry)) = Completed \<and>
     error (gen_entry (generateProductionFile exampleIo exampleDb collarEntry)) = error collarEntry"
    by blast
  have two: "length (items collarEntry) = 2"
    by (simp add: collarEntry_def)
  from inst typed obtain pd where
    pd: "buildProductionData exampleUpper 3000 (Some exampleSettings) collarEntry = Inr pd" and
    lis: "pd_line_items pd =
       map (\<lambda>it. mkLineItem it
               (case itemCustomizations exampleUpper (Some exampleSettings) (properties it) of
                  Inl m \<Rightarrow> [] | Inr cs \<Rightarrow> cs))
         (filter (\<lambda>it. itemCustomizations exampleUpper (Some exampleSettings) (properties it) \<noteq> Inr [])
            (items collarEntry))"
    by blast
  from lis have "length (pd_line_items pd) = 1"
    by (simp add: collarEntry_def collar_only example_not_empty)
  with pd have one: "\<exists>pd. buildProductionData exampleUpper 3000 (Some exampleSettings) collarEntry = Inr pd \<and>
         length (pd_line_items pd) = 1"
    by blast
  show ?thesis
    by (intro conjI cand typed1 typed2 collarNames matched first typed_all ok [THEN conjunct1]
        ok [THEN conjunct2, THEN conjunct1] ok [THEN conjunct2, THEN conjunct2]
        second [THEN conjunct1] second [THEN conjunct2, THEN conjunct1]
        second [THEN conjunct2, THEN conjunct2] two one)
qed

lemma number_thrown:
  "itemCustomizations up (Some exampleSettings) numberProps = Inl upperError"
proof -
  have names: "placementNames numberProps = Inr [str ''Collar'', str ''Back'']"
    by (simp add: placementNames_def numberProps_def getProp_def Let_def)
       (simp add: split_def trim_def isWhiteSpace_def str_def)
  have ctext: "customText numberProps = JNum 23"
    by (simp add: customText_def numberProps_def getProp_def inheritedProp_def js_or_def truthy_def)
  show ?thesis
    by (simp add: itemCustomizations_def names ctext truthy_def pushCustomization_def
        findPlacement_def exampleSettings_def defaultSettings_def defaultPlacements_def
        mkCustomization_def)
qed

text \<open>
  Claim C3 as stated, for every candidate, fails for a candidate with the number 23 under
  \<open>Jersey Number\<close> and the placements Collar and Back. Collar is skipped, but at
  Back line 380 calls \<open>toUpperCase\<close> on the number: the exception ends the
  compilation, the record is in error with the message of the exception, and no
  production description is written.
\<close>

theorem number_text_counterexample:
  "hasCustomization numberProps \<and>
   getProp numberProps (str ''Jersey Number'') = JNum 23 \<and>
   getProp numberProps (str ''Placement'') = JStr (str ''Collar, Back'') \<and>
   findPlacement (Some exampleSettings) (str ''Back'') \<noteq> None \<and>
   itemCustomizations exampleUpper (Some exampleSettings) numberProps = Inl upperError \<and>
   findOne_fault exampleIo = None \<and> save_fault exampleIo = None \<and>
   save_error_fault exampleIo = None \<and> qid numberEntry < length (queueColl exampleDb) \<and>
   status (gen_entry (generateProductionFile exampleIo exampleDb numberEntry)) = Error \<and>
   error (gen_entry (generateProductionFile exampleIo exampleDb numberEntry)) = Some upperError \<and>
   gen_log (generateProductionFile exampleIo exampleDb numberEntry) = None"
proof -
  have cand: "hasCustomization numberProps"
    by (simp add: hasCustomization_def numberProps_def js_or_def getProp_def inheritedProp_def
        truthy_def)
  have v1: "getProp numberProps (str ''Jersey Number'') = JNum 23"
    and v2: "getProp numberProps (str ''Placement'') = JStr (str ''Collar, Back'')"
    by (simp_all add: numberProps_def getProp_def)
  have found: "findPlacement (Some exampleSettings) (str ''Back'') \<noteq> None"
    by (simp add: findPlacement_def exampleSettings_def defaultSettings_def defaultPlacements_def)
  have ok: "findOne_fault exampleIo = None" "save_fault exampleIo = None"
    "save_error_fault exampleIo = None" "qid numberEntry < length (queueColl exampleDb)"
    by (simp_all add: exampleIo_def numberEntry_def exampleEntry_def exampleDb_def)
  have "buildProductionData (unicodeUpper exampleIo) (now_created exampleIo)
      (settingsColl exampleDb (shopDomain numberEntry)) numberEntry = Inl upperError"
    by (simp add: buildProductionData_def numberEntry_def processItem_def exampleDb_def
        exampleEntry_def number_thrown)
  note gen = generateProductionFile_thrown [OF ok(1) ok(3) ok(4) this]
  have s1: "status (gen_entry (generateProductionFile exampleIo exampleDb numberEntry)) = Error"
    and s2: "error (gen_entry (generateProductionFile exampleIo exampleDb numberEntry)) = Some upperError"
    and s3: "gen_log (generateProductionFile exampleIo exampleDb numberEntry) = None"
    by (simp_all add: gen)
  show ?thesis
    by (intro conjI cand v1 v2 found number_thrown ok s1 s2 s3)
qed

section \<open>Properties of candidate extraction\<close>

lemma own_setProp:
  "name \<noteq> str ''__proto__'' \<Longrightarrow>
   own (setProp obj p) name = (if fst p = name then Some (snd p) else own obj name)"
  by (auto simp: setProp_def setPrototype_def split: jsval.splits)

lemma own_foldl_setProp:
  "name \<noteq> str ''__proto__'' \<Longrightarrow>
   own (foldl setProp obj ps) name =
     (case map_of (rev ps) name of None \<Rightarrow> own obj name | Some v \<Rightarrow> Some v)"
proof (induction ps arbitrary: obj)
  case Nil
  show ?case by simp
next
  case (Cons p ps)
  have "own (foldl setProp obj (p # ps)) name = own (foldl setProp (setProp obj p) ps) name"
    by simp
  also have "\<dots> = (case map_of (rev ps) name of None \<Rightarrow> own (setProp obj p) name | Some v \<Rightarrow> Some v)"
    by (rule Cons.IH [OF Cons.prems])
  also have "\<dots> = (case map_of (rev (p # ps)) name of None \<Rightarrow> own obj name | Some v \<Rightarrow> Some v)"
    by (cases p) (simp add: own_setProp [OF Cons.prems] map_add_def split: option.split)
  finally show ?case .
qed

lemma buildProps_last_write:
  "name \<noteq> str ''__proto__'' \<Longrightarrow> own (buildProps ps) name = map_of (rev ps) name"
  by (simp add: buildProps_def own_foldl_setProp emptyObject_def split: option.split)

lemma buildProps_Nil: "buildProps [] = emptyObject"
  by (simp add: buildProps_def)

lemma not_hasCustomization_empty: "\<not> hasCustomization emptyObject"
  by (simp add: hasCustomization_def js_or_def emptyObject_def getProp_def inheritedProp_def)

lemma pushCandidate_declared:
  "pushCandidate item acc =
     (if hasCustomization (buildProps (declared item))
      then acc @ [mkCandidate item (buildProps (declared item))] else acc)"
  by (cases "item_properties item")
     (auto simp: pushCandidate_def declared_def Let_def buildProps_Nil not_hasCustomization_empty)

lemma fold_pushCandidate:
  "fold pushCandidate its acc =
     acc @ map (\<lambda>item. mkCandidate item (buildProps (declared item)))
             (filter (\<lambda>item. hasCustomization (buildProps (declared item))) its)"
  by (induction its arbitrary: acc) (simp_all add: pushCandidate_declared)

text \<open>
  What extraction does for every order: the candidates are the line items whose property
  object holds a truthy value under one of the four text keys, in the order of the line
  items, each with the seven fields of lines 293 to 299; and for every property name
  other than \<open>__proto__\<close> the object holds the value of the last declared property of
  that name as an own property.
\<close>

lemma extraction_when_no_proto:
  "extractCustomizedItems its =
     map (\<lambda>item. \<lparr>lineItemId = item_id item, productId = product_id item,
                   variantId = variant_id item, sku = item_sku item, title = item_title item,
                   quantity = item_quantity item, properties = buildProps (declared item)\<rparr>)
       (filter (\<lambda>item. \<exists>k \<in> {str ''Custom Text'', str ''Player Name'', str ''Jersey Number'',
                                 str ''Custom Message''}.
                          truthy (getProp (buildProps (declared item)) k)) its) \<and>
   (\<forall>item name. name \<noteq> str ''__proto__'' \<longrightarrow>
      own (buildProps (declared item)) name = map_of (rev (declared item)) name)"
  by (simp add: extractCustomizedItems_def fold_pushCandidate hasCustomization_keys
      mkCandidate_def buildProps_last_write)

text \<open>
  Claim C5. The claim says that the property object of a candidate holds every declared
  property, the last value winning for a repeated name. For a line item that declares
  \<open>__proto__\<close> = gift and \<open>Custom Text\<close> = Hi the code builds an object without
  a property \<open>__proto__\<close>, where last-write-wins gives gift.
\<close>

theorem proto_property_dropped:
  "extractCustomizedItems [protoItem] =
     [\<lparr>lineItemId = JNum 11, productId = JNum 22, variantId = JNum 33,
       sku = JStr (str ''JERSEY-M''), title = JStr (str ''Jersey''), quantity = JNum 1,
       properties = \<lparr>own = [str ''Custom Text'' \<mapsto> JStr (str ''Hi'')],
                     proto = ObjectPrototype\<rparr>\<rparr>] \<and>
   [str ''Custom Text'' \<mapsto> JStr (str ''Hi'')] (str ''__proto__'') = None \<and>
   map_of (rev [(str ''__proto__'', JStr (str ''gift'')), (str ''Custom Text'', JStr (str ''Hi''))])
     (str ''__proto__'') = Some (JStr (str ''gift''))"
  by (simp add: extractCustomizedItems_def pushCandidate_def protoItem_def buildProps_def
      setProp_def reachesSetter_def setPrototype_def emptyObject_def hasCustomization_def
      js_or_def getProp_def inheritedProp_def mkCandidate_def)

section \<open>Compiling twice\<close>

lemma saveEntry_settingsColl: "saveEntry f d q = Inr d' \<Longrightarrow> settingsColl d' = settingsColl d"
  by (auto simp: saveEntry_def split: option.splits if_splits)

lemma saveEntry_Inr_iff:
  "saveEntry f d q = Inr d' \<longleftrightarrow>
     f = None \<and> qid q < length (queueColl d) \<and> d' = d\<lparr>queueColl := (queueColl d)[qid q := q]\<rparr>"
  by (auto simp: saveEntry_def split: option.splits if_splits)

lemma tryBlock_Inr:
  "tryBlock e d q = Inr (pd, q', d') \<Longrightarrow>
     buildProductionData (unicodeUpper e) (now_created e) (settingsColl d (shopDomain q)) q = Inr pd \<and>
     q' = q\<lparr>status := Completed, processedAt := Some (now_processed e)\<rparr> \<and>
     saveEntry (save_fault e) d q' = Inr d'"
  by (auto simp: tryBlock_def findOne_def Let_def split: option.splits sum.splits)

lemma tryBlock_Inl:
  "tryBlock e d q = Inl (m, q1) \<Longrightarrow>
     q1 = q \<or> q1 = q\<lparr>status := Completed, processedAt := Some (now_processed e)\<rparr>"
  by (auto simp: tryBlock_def findOne_def Let_def split: option.splits sum.splits)

lemma gen_log_Some:
  "gen_log (generateProductionFile e d q) = Some pd \<Longrightarrow>
     buildProductionData (unicodeUpper e) (now_created e) (settingsColl d (shopDomain q)) q = Inr pd"
  by (auto simp: generateProductionFile_def Let_def dest: tryBlock_Inr
      split: sum.splits prod.splits)

lemma gen_db_settingsColl:
  "settingsColl (gen_db (generateProductionFile e d q)) = settingsColl d"
  by (auto simp: generateProductionFile_def Let_def dest!: tryBlock_Inr saveEntry_settingsColl
      split: sum.splits prod.splits)

lemma gen_entry_frame:
  "(gen_entry (generateProductionFile e d q))
     \<lparr>status := status q, processedAt := processedAt q, error := error q\<rparr> = q"
  by (auto simp: generateProductionFile_def Let_def dest!: tryBlock_Inr tryBlock_Inl
      split: sum.splits prod.splits)

lemma buildProductionData_reads:
  assumes "items q2 = items q1" and "orderId q2 = orderId q1"
    and "orderNumber q2 = orderNumber q1" and "orderData q2 = orderData q1"
    and "buildProductionData up t1 st q1 = Inr pd1"
    and "buildProductionData up t2 st q2 = Inr pd2"
  shows "pd1\<lparr>created_at := t\<rparr> = pd2\<lparr>created_at := t\<rparr> \<and> created_at pd1 = t1 \<and> created_at pd2 = t2"
  using assms by (auto simp: buildProductionData_def split: sum.splits)

text \<open>
  Claim C2, as amended. The production description is a function of the intake record,
  the catalog of the shop and the clock: \<open>created_at\<close> is the time read at
  compilation, and two compilations agree on every other field whenever the two databases
  hold the same catalog for the shop, the two records differ at most in status, processed
  time and error message, and the engine is the same. Compilation leaves the settings
  collection as it was. It does change the intake record, but only its status, processed
  time and error message; so the statement applies to a second compilation of the record
  that the first one left behind, in the database that the first one left behind.
\<close>

theorem production_description_up_to_timestamp:
  "(settingsColl d1 (shopDomain q1) = settingsColl d2 (shopDomain q1) \<and>
    q2\<lparr>status := status q1, processedAt := processedAt q1, error := error q1\<rparr> = q1 \<and>
    unicodeUpper e1 = unicodeUpper e2 \<and>
    gen_log (generateProductionFile e1 d1 q1) = Some pd1 \<and>
    gen_log (generateProductionFile e2 d2 q2) = Some pd2 \<longrightarrow>
      pd1\<lparr>created_at := t\<rparr> = pd2\<lparr>created_at := t\<rparr> \<and>
      created_at pd1 = now_created e1 \<and> created_at pd2 = now_created e2) \<and>
   settingsColl (gen_db (generateProductionFile e1 d1 q1)) = settingsColl d1 \<and>
   (gen_entry (generateProductionFile e1 d1 q1))
     \<lparr>status := status q1, processedAt := processedAt q1, error := error q1\<rparr> = q1"
proof (intro conjI impI)
  assume hyps: "settingsColl d1 (shopDomain q1) = settingsColl d2 (shopDomain q1) \<and>
    q2\<lparr>status := status q1, processedAt := processedAt q1, error := error q1\<rparr> = q1 \<and>
    unicodeUpper e1 = unicodeUpper e2 \<and>
    gen_log (generateProductionFile e1 d1 q1) = Some pd1 \<and>
    gen_log (generateProductionFile e2 d2 q2) = Some pd2"
  then have same: "q2\<lparr>status := status q1, processedAt := processedAt q1, error := error q1\<rparr> = q1"
    by simp
  have reads: "shopDomain q2 = shopDomain q1" "items q2 = items q1" "orderId q2 = orderId q1"
    "orderNumber q2 = orderNumber q1" "orderData q2 = orderData q1"
    using arg_cong [OF same, of shopDomain] arg_cong [OF same, of items]
      arg_cong [OF same, of orderId] arg_cong [OF same, of orderNumber]
      arg_cong [OF same, of orderData]
    by simp_all
  from hyps have "gen_log (generateProductionFile e1 d1 q1) = Some pd1"
    by blast
  then have pd1: "buildProductionData (unicodeUpper e1) (now_created e1)
      (settingsColl d1 (shopDomain q1)) q1 = Inr pd1"
    by (rule gen_log_Some)
  from hyps have "gen_log (generateProductionFile e2 d2 q2) = Some pd2"
    by blast
  then have "buildProductionData (unicodeUpper e2) (now_created e2)
      (settingsColl d2 (shopDomain q2)) q2 = Inr pd2"
    by (rule gen_log_Some)
  moreover from hyps have "unicodeUpper e2 = unicodeUpper e1"
    and "settingsColl d2 (shopDomain q1) = settingsColl d1 (shopDomain q1)"
    by simp_all
  ultimately have pd2: "buildProductionData (unicodeUpper e1) (now_created e2)
      (settingsColl d1 (shopDomain q1)) q2 = Inr pd2"
    by (simp add: reads(1))
  note both = buildProductionData_reads [OF reads(2-5) pd1 pd2, of t]
  from both show "pd1\<lparr>created_at := t\<rparr> = pd2\<lparr>created_at := t\<rparr>" by simp
  from both show "created_at pd1 = now_created e1" by simp
  from both show "created_at pd2 = now_created e2" by simp
next
  show "settingsColl (gen_db (generateProductionFile e1 d1 q1)) = settingsColl d1"
    by (rule gen_db_settingsColl)
next
  show "(gen_entry (generateProductionFile e1 d1 q1))
     \<lparr>status := status q1, processedAt := processedAt q1, error := error q1\<rparr> = q1"
    by (rule gen_entry_frame)
qed

lemma example_build:
  "\<exists>pd. buildProductionData exampleUpper now (Some exampleSettings) exampleEntry = Inr pd \<and>
        created_at pd = now"
proof -
  have "\<forall>it \<in> set (items exampleEntry). textIsString (properties it) \<and> placementIsString (properties it)"
    using example_typed by (simp add: exampleEntry_def exampleItem_def)
  then show ?thesis
    by (simp add: buildProductionData_typed)
qed

lemma later_build:
  "buildProductionData up now st laterEntry = buildProductionData up now st exampleEntry"
  by (simp add: buildProductionData_def laterEntry_def split: sum.split)

lemma example_in_range:
  "findOne_fault exampleIo = None \<and> save_fault exampleIo = None \<and>
   findOne_fault laterIo = None \<and> save_fault laterIo = None \<and>
   qid exampleEntry < length (queueColl exampleDb) \<and>
   qid laterEntry < length (queueColl laterDb)"
  by (simp add: exampleIo_def laterIo_def exampleEntry_def exampleDb_def laterEntry_def laterDb_def)

lemma example_log:
  "\<exists>pd. gen_log (generateProductionFile exampleIo exampleDb exampleEntry) = Some pd \<and>
        created_at pd = 3000"
proof -
  obtain pd where pd: "buildProductionData exampleUpper 3000 (Some exampleSettings) exampleEntry = Inr pd"
    and at: "created_at pd = 3000"
    using example_build [of 3000] by blast
  have "buildProductionData (unicodeUpper exampleIo) (now_created exampleIo)
      (settingsColl exampleDb (shopDomain exampleEntry)) exampleEntry = Inr pd"
    using pd by (simp add: exampleIo_def exampleDb_def exampleEntry_def)
  with example_in_range at show ?thesis
    by (simp add: generateProductionFile_success)
qed

lemma later_log:
  "\<exists>pd. gen_log (generateProductionFile laterIo d exampleEntry) = Some pd \<and> created_at pd = 3500"
  if "settingsColl d (str ''shop.example'') = Some exampleSettings" "0 < length (queueColl d)"
proof -
  obtain pd where pd: "buildProductionData exampleUpper 3500 (Some exampleSettings) exampleEntry = Inr pd"
    and at: "created_at pd = 3500"
    using example_build [of 3500] by blast
  have "buildProductionData (unicodeUpper laterIo) (now_created laterIo)
      (settingsColl d (shopDomain exampleEntry)) exampleEntry = Inr pd"
    using pd that(1) by (simp add: laterIo_def exampleIo_def exampleEntry_def)
  moreover have "qid exampleEntry < length (queueColl d)"
    using that(2) by (simp add: exampleEntry_def)
  ultimately show ?thesis
    using example_in_range at by (simp add: generateProductionFile_success)
qed

lemma later_run_log:
  "\<exists>pd. gen_log (generateProductionFile laterIo laterDb laterEntry) = Some pd \<and> created_at pd = 3500"
proof -
  obtain pd where pd: "buildProductionData exampleUpper 3500 (Some exampleSettings) exampleEntry = Inr pd"
    and at: "created_at pd = 3500"
    using example_build [of 3500] by blast
  have "buildProductionData (unicodeUpper laterIo) (now_created laterIo)
      (settingsColl laterDb (shopDomain laterEntry)) laterEntry = Inr pd"
    using pd later_build [of exampleUpper 3500 "Some exampleSettings"]
    by (simp add: laterIo_def exampleIo_def laterDb_def exampleDb_def laterEntry_def exampleEntry_def)
  with example_in_range at show ?thesis
    by (simp add: generateProductionFile_success)
qed

lemma example_status:
  "status (gen_entry (generateProductionFile exampleIo exampleDb exampleEntry)) = Completed"
proof -
  obtain pd where "buildProductionData exampleUpper 3000 (Some exampleSettings) exampleEntry = Inr pd"
    using example_build [of 3000] by blast
  then have "buildProductionData (unicodeUpper exampleIo) (now_created exampleIo)
      (settingsColl exampleDb (shopDomain exampleEntry)) exampleEntry = Inr pd"
    by (simp add: exampleIo_def exampleDb_def exampleEntry_def)
  with example_in_range show ?thesis
    by (simp add: generateProductionFile_success)
qed

lemma first_run:
  "gen_db (generateProductionFile exampleIo exampleDb exampleEntry) = laterDb \<and>
   gen_entry (generateProductionFile exampleIo exampleDb exampleEntry) = laterEntry"
proof -
  obtain pd where "buildProductionData exampleUpper 3000 (Some exampleSettings) exampleEntry = Inr pd"
    using example_build [of 3000] by blast
  then have "buildProductionData (unicodeUpper exampleIo) (now_created exampleIo)
      (settingsColl exampleDb (shopDomain exampleEntry)) exampleEntry = Inr pd"
    by (simp add: exampleIo_def exampleDb_def exampleEntry_def)
  with example_in_range show ?thesis
    by (simp add: generateProductionFile_success)
       (simp add: laterDb_def laterEntry_def exampleDb_def exampleIo_def exampleEntry_def)
qed

theorem production_description_up_to_timestamp_witness:
  "gen_db (generateProductionFile exampleIo exampleDb exampleEntry) = laterDb \<and>
   gen_entry (generateProductionFile exampleIo exampleDb exampleEntry) = laterEntry \<and>
   settingsColl exampleDb (shopDomain exampleEntry) = settingsColl laterDb (shopDomain exampleEntry) \<and>
   laterEntry\<lparr>status := status exampleEntry, processedAt := processedAt exampleEntry,
              error := error exampleEntry\<rparr> = exampleEntry \<and>
   unicodeUpper exampleIo = unicodeUpper laterIo \<and>
   (\<exists>pd1 pd2.
      gen_log (generateProductionFile exampleIo exampleDb exampleEntry) = Some pd1 \<and>
      gen_log (generateProductionFile laterIo laterDb laterEntry) = Some pd2 \<and>
      pd1\<lparr>created_at := 0\<rparr> = pd2\<lparr>created_at := 0\<rparr> \<and>
      created_at pd1 = now_created exampleIo \<and> created_at pd2 = now_created laterIo)"
proof -
  have h1: "settingsColl exampleDb (shopDomain exampleEntry) =
      settingsColl laterDb (shopDomain exampleEntry)"
    by (simp add: laterDb_def)
  have h2: "laterEntry\<lparr>status := status exampleEntry, processedAt := processedAt exampleEntry,
              error := error exampleEntry\<rparr> = exampleEntry"
    by (simp add: laterEntry_def exampleEntry_def)
  have h3: "unicodeUpper exampleIo = unicodeUpper laterIo"
    by (simp add: laterIo_def)
  obtain pd1 where l1: "gen_log (generateProductionFile exampleIo exampleDb exampleEntry) = Some pd1"
    using example_log by blast
  obtain pd2 where l2: "gen_log (generateProductionFile laterIo laterDb laterEntry) = Some pd2"
    using later_run_log by blast
  from production_description_up_to_timestamp [of exampleDb exampleEntry laterDb laterEntry
      exampleIo laterIo pd1 pd2 0] h1 h2 h3 l1 l2
  have "pd1\<lparr>created_at := 0\<rparr> = pd2\<lparr>created_at := 0\<rparr> \<and>
      created_at pd1 = now_created exampleIo \<and> created_at pd2 = now_created laterIo"
    by blast
  with l1 l2 have "\<exists>pd1 pd2.
      gen_log (generateProductionFile exampleIo exampleDb exampleEntry) = Some pd1 \<and>
      gen_log (generateProductionFile laterIo laterDb laterEntry) = Some pd2 \<and>
      pd1\<lparr>created_at := 0\<rparr> = pd2\<lparr>created_at := 0\<rparr> \<and>
      created_at pd1 = now_created exampleIo \<and> created_at pd2 = now_created laterIo"
    by blast
  then show ?thesis
    by (intro conjI first_run [THEN conjunct1] first_run [THEN conjunct2] h1 h2 h3)
qed

text \<open>
  Claim C2 as stated fails: the same record compiled against the same database at two
  different times gives two different production descriptions, and the record is not
  left as it was (its status becomes completed).
\<close>

theorem compiled_twice_counterexample:
  "gen_log (generateProductionFile exampleIo exampleDb exampleEntry) \<noteq> None \<and>
   gen_log (generateProductionFile exampleIo exampleDb exampleEntry) \<noteq>
     gen_log (generateProductionFile laterIo exampleDb exampleEntry) \<and>
   gen_entry (generateProductionFile exampleIo exampleDb exampleEntry) \<noteq> exampleEntry"
proof (intro conjI)
  obtain pd1 where l1: "gen_log (generateProductionFile exampleIo exampleDb exampleEntry) = Some pd1"
    and at1: "created_at pd1 = 3000"
    using example_log by blast
  have "settingsColl exampleDb (str ''shop.example'') = Some exampleSettings"
    "0 < length (queueColl exampleDb)"
    by (simp_all add: exampleDb_def)
  then obtain pd2 where l2: "gen_log (generateProductionFile laterIo exampleDb exampleEntry) = Some pd2"
    and at2: "created_at pd2 = 3500"
    using later_log [of exampleDb] by blast
  from l1 show "gen_log (generateProductionFile exampleIo exampleDb exampleEntry) \<noteq> None"
    by simp
  from at1 at2 have "pd1 \<noteq> pd2"
    by auto
  with l1 l2 show "gen_log (generateProductionFile exampleIo exampleDb exampleEntry) \<noteq>
     gen_log (generateProductionFile laterIo exampleDb exampleEntry)"
    by simp
  have "status exampleEntry = Pending"
    by (simp add: exampleEntry_def)
  with example_status
  show "gen_entry (generateProductionFile exampleIo exampleDb exampleEntry) \<noteq> exampleEntry"
    by auto
qed

section \<open>Failures during compilation\<close>

lemma gen_outcome_Inr:
  "save_error_fault e = None \<Longrightarrow> qid q < length (queueColl d) \<Longrightarrow>
   gen_outcome (generateProductionFile e d q) = Inr ()"
  by (auto simp: generateProductionFile_def Let_def saveEntry_def dest!: tryBlock_Inl
      split: sum.splits prod.splits)

lemma gen_caught:
  "tryBlock e d q = Inl (m, q1) \<Longrightarrow>
   status (gen_entry (generateProductionFile e d q)) = Error \<and>
   error (gen_entry (generateProductionFile e d q)) = Some m"
  by (auto simp: generateProductionFile_def Let_def split: sum.splits)

lemma gen_caught_stored:
  "tryBlock e d q = Inl (m, q1) \<Longrightarrow> save_error_fault e = None \<Longrightarrow>
   qid q < length (queueColl d) \<Longrightarrow>
   queueColl (gen_db (generateProductionFile e d q)) ! qid q =
     gen_entry (generateProductionFile e d q)"
  by (auto simp: generateProductionFile_def Let_def saveEntry_def dest!: tryBlock_Inl
      split: sum.splits)

lemma gen_rethrown:
  "tryBlock e d q = Inl (m, q1) \<Longrightarrow> save_error_fault e = Some m2 \<Longrightarrow>
   gen_outcome (generateProductionFile e d q) = Inl m2"
  by (auto simp: generateProductionFile_def Let_def saveEntry_def split: sum.splits)

lemma createEntry_ok:
  "createEntry None now d q =
     Inr (q\<lparr>qid := length (queueColl d), createdAt := now\<rparr>,
          d\<lparr>queueColl := queueColl d @ [q\<lparr>qid := length (queueColl d), createdAt := now\<rparr>]\<rparr>)"
  by (simp add: createEntry_def Let_def)

lemma webhook_acknowledged:
  assumes "hmac e = NoSecret \<or> hmac e = HashMatches"
    and "create_fault e = None" and "save_error_fault e = None"
  shows "wh_response (webhook e shop ord d) = OK200"
proof (cases "0 < length (extractCustomizedItems (line_items ord))")
  case False
  with assms(1) show ?thesis
    by (auto simp: webhook_def Let_def)
next
  case True
  let ?q = "(newEntry shop ord (extractCustomizedItems (line_items ord)))
              \<lparr>qid := length (queueColl d), createdAt := now_queued e\<rparr>"
  let ?d1 = "d\<lparr>queueColl := queueColl d @ [?q]\<rparr>"
  have "gen_outcome (generateProductionFile e ?d1 ?q) = Inr ()"
    by (rule gen_outcome_Inr) (simp_all add: assms(3))
  with True assms(1,2) show ?thesis
    by (auto simp: webhook_def Let_def createEntry_ok)
qed

text \<open>
  Claim C7, as amended. An exception raised in the \<open>try\<close> block of
  \<open>generateProductionFile\<close> (a rejected database call, or a string method called
  on a property value that is not a string) is caught: the record gets the status error
  and the message of the exception. When the write that stores this state succeeds, the
  call returns normally and the stored record is the record in error. Whatever happens in
  the \<open>try\<close> block, the webhook answers 200 to an order that passes the signature
  check when the record can be created and the write of the error state does not fail.
\<close>

theorem compilation_failure_recorded:
  "(tryBlock e d q = Inl (m, q1) \<longrightarrow>
      status (gen_entry (generateProductionFile e d q)) = Error \<and>
      error (gen_entry (generateProductionFile e d q)) = Some m \<and>
      (save_error_fault e = None \<and> qid q < length (queueColl d) \<longrightarrow>
         gen_outcome (generateProductionFile e d q) = Inr () \<and>
         queueColl (gen_db (generateProductionFile e d q)) ! qid q =
           gen_entry (generateProductionFile e d q))) \<and>
   ((hmac e = NoSecret \<or> hmac e = HashMatches) \<and> create_fault e = None \<and>
    save_error_fault e = None \<longrightarrow>
      wh_response (webhook e shop ord d0) = OK200)"
proof (intro conjI impI)
  assume thrown: "tryBlock e d q = Inl (m, q1)"
  then show "status (gen_entry (generateProductionFile e d q)) = Error"
    by (simp add: gen_caught)
  from thrown show "error (gen_entry (generateProductionFile e d q)) = Some m"
    by (simp add: gen_caught)
  assume written: "save_error_fault e = None \<and> qid q < length (queueColl d)"
  then show "gen_outcome (generateProductionFile e d q) = Inr ()"
    by (simp add: gen_outcome_Inr)
  from thrown written
  show "queueColl (gen_db (generateProductionFile e d q)) ! qid q =
          gen_entry (generateProductionFile e d q)"
    by (simp add: gen_caught_stored)
next
  assume "(hmac e = NoSecret \<or> hmac e = HashMatches) \<and> create_fault e = None \<and>
    save_error_fault e = None"
  then show "wh_response (webhook e shop ord d0) = OK200"
    by (simp add: webhook_acknowledged)
qed

lemma failing_tryBlock:
  "tryBlock failingIo exampleDb exampleEntry = Inl (str ''db down'', exampleEntry)"
  by (simp add: tryBlock_def findOne_def failingIo_def exampleIo_def)

lemma broken_tryBlock:
  "tryBlock brokenIo exampleDb exampleEntry = Inl (str ''db down'', exampleEntry)"
  by (simp add: tryBlock_def findOne_def brokenIo_def exampleIo_def)

lemma example_candidates:
  "extractCustomizedItems (line_items exampleOrder) = [exampleItem]"
  by (simp add: extractCustomizedItems_def exampleOrder_def pushCandidate_def buildProps_def
      setProp_def emptyObject_def hasCustomization_def js_or_def getProp_def inheritedProp_def
      mkCandidate_def exampleItem_def exampleProps_def)

theorem compilation_failure_recorded_witness:
  "tryBlock failingIo exampleDb exampleEntry = Inl (str ''db down'', exampleEntry) \<and>
   status (gen_entry (generateProductionFile failingIo exampleDb exampleEntry)) = Error \<and>
   error (gen_entry (generateProductionFile failingIo exampleDb exampleEntry)) =
     Some (str ''db down'') \<and>
   save_error_fault failingIo = None \<and> qid exampleEntry < length (queueColl exampleDb) \<and>
   gen_outcome (generateProductionFile failingIo exampleDb exampleEntry) = Inr () \<and>
   queueColl (gen_db (generateProductionFile failingIo exampleDb exampleEntry)) ! qid exampleEntry =
     gen_entry (generateProductionFile failingIo exampleDb exampleEntry) \<and>
   hmac failingIo = NoSecret \<and> create_fault failingIo = None \<and>
   wh_response (webhook failingIo (str ''shop.example'') exampleOrder emptyDb) = OK200"
proof -
  have hyps: "save_error_fault failingIo = None \<and> qid exampleEntry < length (queueColl exampleDb) \<and>
      hmac failingIo = NoSecret \<and> create_fault failingIo = None"
    by (simp add: failingIo_def exampleIo_def exampleEntry_def exampleDb_def)
  from compilation_failure_recorded [where e = failingIo and d = exampleDb and q = exampleEntry
      and m = "str ''db down''" and ?q1.0 = exampleEntry and shop = "str ''shop.example''"
      and ord = exampleOrder and ?d0.0 = emptyDb] failing_tryBlock hyps
  show ?thesis by blast
qed

text \<open>
  Claim C7 as stated fails: when the settings lookup rejects and the write of the error
  state rejects too, the second exception leaves \<open>generateProductionFile\<close> and the
  webhook answers 500.
\<close>

theorem error_write_fails_counterexample:
  "tryBlock brokenIo exampleDb exampleEntry = Inl (str ''db down'', exampleEntry) \<and>
   gen_outcome (generateProductionFile brokenIo exampleDb exampleEntry) = Inl (str ''db down'') \<and>
   wh_response (webhook brokenIo (str ''shop.example'') exampleOrder emptyDb) =
     Error500 (str ''db down'')"
proof (intro conjI)
  show "tryBlock brokenIo exampleDb exampleEntry = Inl (str ''db down'', exampleEntry)"
    by (rule broken_tryBlock)
  have fault: "save_error_fault brokenIo = Some (str ''db down'')"
    by (simp add: brokenIo_def)
  from broken_tryBlock fault
  show "gen_outcome (generateProductionFile brokenIo exampleDb exampleEntry) = Inl (str ''db down'')"
    by (rule gen_rethrown)
  let ?q = "(newEntry (str ''shop.example'') exampleOrder [exampleItem])
              \<lparr>qid := length (queueColl emptyDb), createdAt := now_queued brokenIo\<rparr>"
  let ?d1 = "emptyDb\<lparr>queueColl := queueColl emptyDb @ [?q]\<rparr>"
  have "tryBlock brokenIo ?d1 ?q = Inl (str ''db down'', ?q)"
    by (simp add: tryBlock_def findOne_def brokenIo_def)
  from this fault have "gen_outcome (generateProductionFile brokenIo ?d1 ?q) = Inl (str ''db down'')"
    by (rule gen_rethrown)
  moreover have "hmac brokenIo = NoSecret \<and> create_fault brokenIo = None"
    by (simp add: brokenIo_def exampleIo_def)
  ultimately show "wh_response (webhook brokenIo (str ''shop.example'') exampleOrder emptyDb) =
      Error500 (str ''db down'')"
    by (simp add: webhook_def Let_def example_candidates createEntry_ok)
qed

section \<open>Catalogs: absent at compilation, created on first read\<close>

lemma itemCustomizations_no_catalog:
  "placementNames props = Inr names \<Longrightarrow> itemCustomizations up None props = Inr []"
  by (simp add: itemCustomizations_def Let_def forEach_unmatched findPlacement_def
      del: forEach.simps)

lemma forEach_processItem_no_catalog:
  "\<forall>it \<in> set its. placementIsString (properties it) \<Longrightarrow>
   forEach (processItem up None) its acc = Inr acc"
proof (induction its arbitrary: acc)
  case Nil
  show ?case by simp
next
  case (Cons it its)
  from Cons.prems obtain names where "placementNames (properties it) = Inr names"
    using placementNames_string [of "properties it"] by auto
  then have step: "processItem up None it acc = Inr acc"
    by (simp add: processItem_def itemCustomizations_no_catalog)
  from Cons.prems have "\<forall>it \<in> set its. placementIsString (properties it)"
    by simp
  note IH = Cons.IH [OF this]
  show ?case
    by (simp add: step IH)
qed

lemma buildProductionData_no_catalog:
  "\<forall>it \<in> set (items q). placementIsString (properties it) \<Longrightarrow>
   buildProductionData up now None q =
     Inr \<lparr>order_id = orderId q, order_number = orderNumber q, created_at = now,
          pd_customer = od_customer (orderData q), pd_line_items = []\<rparr>"
  by (simp add: buildProductionData_def forEach_processItem_no_catalog del: forEach.simps)

text \<open>
  Claim C9, as amended. When the shop has no settings document, the two database calls
  of the compilation succeed, and the \<open>Placement\<close> of every item of the record is a
  string or falsy, the call returns normally, the settings collection is unchanged (no
  default catalog is created), every placement lookup misses, the production description
  that is logged has no line items, and the record, in memory and as stored, is completed
  with the processed time. The customization text may be any value: without a catalog no
  placement matches, and line 380 is not reached.
\<close>

theorem compile_without_catalog:
  assumes "settingsColl d (shopDomain q) = None"
    and "findOne_fault e = None" and "save_fault e = None"
    and "qid q < length (queueColl d)"
    and "\<forall>it \<in> set (items q). placementIsString (properties it)"
  shows "settingsColl (gen_db (generateProductionFile e d q)) = settingsColl d \<and>
         gen_outcome (generateProductionFile e d q) = Inr () \<and>
         (\<forall>n. findPlacement (settingsColl d (shopDomain q)) n = None) \<and>
         (\<exists>pd. gen_log (generateProductionFile e d q) = Some pd \<and> pd_line_items pd = []) \<and>
         status (gen_entry (generateProductionFile e d q)) = Completed \<and>
         processedAt (gen_entry (generateProductionFile e d q)) = Some (now_processed e) \<and>
         queueColl (gen_db (generateProductionFile e d q)) ! qid q =
           gen_entry (generateProductionFile e d q)"
proof -
  let ?pd = "\<lparr>order_id = orderId q, order_number = orderNumber q, created_at = now_created e,
          pd_customer = od_customer (orderData q), pd_line_items = []\<rparr>"
  have "buildProductionData (unicodeUpper e) (now_created e) (settingsColl d (shopDomain q)) q =
      Inr ?pd"
    using assms(1,5) by (simp add: buildProductionData_no_catalog)
  note result = generateProductionFile_success [OF assms(2-4) this]
  from assms(1,4) show ?thesis
    by (simp add: result findPlacement_def)
qed

theorem compile_without_catalog_witness:
  "settingsColl noCatalogDb (shopDomain exampleEntry) = None \<and>
   findOne_fault exampleIo = None \<and> save_fault exampleIo = None \<and>
   qid exampleEntry < length (queueColl noCatalogDb) \<and>
   list_all (\<lambda>it. placementIsString (properties it)) (items exampleEntry) \<and>
   settingsColl (gen_db (generateProductionFile exampleIo noCatalogDb exampleEntry)) =
     settingsColl noCatalogDb \<and>
   gen_outcome (generateProductionFile exampleIo noCatalogDb exampleEntry) = Inr () \<and>
   (\<exists>pd. gen_log (generateProductionFile exampleIo noCatalogDb exampleEntry) = Some pd \<and>
         pd_line_items pd = []) \<and>
   status (gen_entry (generateProductionFile exampleIo noCatalogDb exampleEntry)) = Completed \<and>
   processedAt (gen_entry (generateProductionFile exampleIo noCatalogDb exampleEntry)) =
     Some (now_processed exampleIo)"
proof -
  have h1: "settingsColl noCatalogDb (shopDomain exampleEntry) = None"
    by (simp add: noCatalogDb_def)
  have h2: "findOne_fault exampleIo = None" and h3: "save_fault exampleIo = None"
    by (simp_all add: exampleIo_def)
  have h4: "qid exampleEntry < length (queueColl noCatalogDb)"
    by (simp add: noCatalogDb_def exampleEntry_def)
  have h5: "list_all (\<lambda>it. placementIsString (properties it)) (items exampleEntry)"
    by (simp add: exampleEntry_def exampleItem_def exampleProps_def placementIsString_def
        getProp_def)
  then have h5': "\<forall>it \<in> set (items exampleEntry). placementIsString (properties it)"
    by (simp add: list_all_iff)
  from compile_without_catalog [OF h1 h2 h3 h4 h5'] h1 h2 h3 h4 h5 show ?thesis
    by blast
qed

lemma array_names: "placementNames arrayProps = Inl splitError"
  by (simp add: placementNames_def arrayProps_def getProp_def truthy_def Let_def)

lemma array_build: "buildProductionData up now st arrayEntry = Inl splitError"
  by (simp add: buildProductionData_def arrayEntry_def processItem_def itemCustomizations_def
      array_names)

text \<open>
  Claim C9 as stated fails: a queued candidate whose \<open>Placement\<close> is an array. With
  no settings document and working database calls, line 364 calls \<open>split\<close> on the
  array: the compilation fails, the record is in error with the message of the
  exception and has no processed time, and no production description is written.
\<close>

theorem array_placement_counterexample:
  "settingsColl arrayDb (shopDomain arrayEntry) = None \<and>
   findOne_fault exampleIo = None \<and> save_fault exampleIo = None \<and>
   save_error_fault exampleIo = None \<and>
   qid arrayEntry < length (queueColl arrayDb) \<and>
   list_all (\<lambda>it. hasCustomization (properties it)) (items arrayEntry) \<and>
   status (gen_entry (generateProductionFile exampleIo arrayDb arrayEntry)) = Error \<and>
   error (gen_entry (generateProductionFile exampleIo arrayDb arrayEntry)) = Some splitError \<and>
   processedAt (gen_entry (generateProductionFile exampleIo arrayDb arrayEntry)) = None \<and>
   gen_log (generateProductionFile exampleIo arrayDb arrayEntry) = None"
proof -
  have h1: "settingsColl arrayDb (shopDomain arrayEntry) = None"
    by (simp add: arrayDb_def)
  have h2: "findOne_fault exampleIo = None" and h3: "save_fault exampleIo = None"
    and h3': "save_error_fault exampleIo = None"
    by (simp_all add: exampleIo_def)
  have h4: "qid arrayEntry < length (queueColl arrayDb)"
    by (simp add: arrayDb_def arrayEntry_def exampleEntry_def)
  have h5: "list_all (\<lambda>it. hasCustomization (properties it)) (items arrayEntry)"
    by (simp add: arrayEntry_def arrayProps_def hasCustomization_def js_or_def getProp_def)
  have "buildProductionData (unicodeUpper exampleIo) (now_created exampleIo)
      (settingsColl arrayDb (shopDomain arrayEntry)) arrayEntry = Inl splitError"
    by (rule array_build)
  note result = generateProductionFile_thrown [OF h2 h3' h4 this]
  have r1: "status (gen_entry (generateProductionFile exampleIo arrayDb arrayEntry)) = Error"
    and r2: "error (gen_entry (generateProductionFile exampleIo arrayDb arrayEntry)) = Some splitError"
    and r4: "gen_log (generateProductionFile exampleIo arrayDb arrayEntry) = None"
    by (simp_all add: result)
  have r3: "processedAt (gen_entry (generateProductionFile exampleIo arrayDb arrayEntry)) = None"
    by (simp add: result) (simp add: arrayEntry_def exampleEntry_def)
  show ?thesis
    by (intro conjI h1 h2 h3 h3' h4 h5 r1 r2 r3 r4)
qed




section \<open>The status of an intake record\<close>

lemma getSettings_queueColl: "queueColl (snd (getSettings se shop d)) = queueColl d"
  by (auto simp: getSettings_def findOne_def createSettings_def
      split: option.splits sum.splits if_splits)

lemma gen_entry_status:
  "status (gen_entry (generateProductionFile e d q)) = Completed \<or>
   status (gen_entry (generateProductionFile e d q)) = Error"
  by (auto simp: generateProductionFile_def Let_def dest!: tryBlock_Inr split: sum.splits)

lemma tryBlock_Inl_qid: "tryBlock e d q = Inl (m, q1) \<Longrightarrow> qid q1 = qid q"
  by (auto dest: tryBlock_Inl)

lemma gen_db_queueColl:
  "queueColl (gen_db (generateProductionFile e d q)) = queueColl d \<or>
   queueColl (gen_db (generateProductionFile e d q)) =
     (queueColl d)[qid q := gen_entry (generateProductionFile e d q)]"
  by (auto simp: generateProductionFile_def Let_def saveEntry_Inr_iff
      dest!: tryBlock_Inr dest: tryBlock_Inl_qid split: sum.splits)

lemma list_all_update: "list_all P xs \<Longrightarrow> P x \<Longrightarrow> list_all P (xs[i := x])"
  by (induction xs arbitrary: i) (auto split: nat.splits)

lemma statusOk_gen:
  assumes "statusOk d"
  shows "statusOk (gen_db (generateProductionFile e d q))"
proof -
  have "list_all (\<lambda>q. status q = Pending \<or> status q = Completed \<or> status q = Error)
          ((queueColl d)[qid q := gen_entry (generateProductionFile e d q)])"
    using assms gen_entry_status [of e d q]
    by (intro list_all_update) (auto simp: statusOk_def)
  with assms gen_db_queueColl [of e d q] show ?thesis
    by (auto simp: statusOk_def)
qed

lemma status_newEntry: "status (newEntry shop ord cs) = Pending"
  by (simp add: newEntry_def)

lemma statusOk_createEntry:
  "statusOk d \<Longrightarrow> createEntry f now d (newEntry shop ord cs) = Inr (q, d') \<Longrightarrow> statusOk d'"
  by (auto simp: createEntry_def Let_def statusOk_def status_newEntry split: option.splits)

lemma statusOk_webhook:
  assumes "statusOk d"
  shows "statusOk (wh_db (webhook e shop ord d))"
proof (cases "createEntry (create_fault e) (now_queued e) d
                (newEntry shop ord (extractCustomizedItems (line_items ord)))")
  case (Inl m)
  with assms show ?thesis
    by (auto simp: webhook_def Let_def split: hmacOutcome.splits)
next
  case (Inr r)
  obtain q d1 where r: "r = (q, d1)" by (cases r)
  with Inr assms have "statusOk d1"
    by (auto dest: statusOk_createEntry)
  then have "statusOk (gen_db (generateProductionFile e d1 q))"
    by (rule statusOk_gen)
  with Inr r assms show ?thesis
    by (auto simp: webhook_def Let_def split: hmacOutcome.splits sum.splits)
qed

lemma statusOk_afterCreate:
  assumes "statusOk d"
  shows "statusOk (afterCreate e shop ord d)"
proof (cases "createEntry (create_fault e) (now_queued e) d
                (newEntry shop ord (extractCustomizedItems (line_items ord)))")
  case (Inl m)
  with assms show ?thesis
    by (auto simp: afterCreate_def Let_def split: hmacOutcome.splits)
next
  case (Inr r)
  obtain q d1 where r: "r = (q, d1)" by (cases r)
  with Inr assms have "statusOk d1"
    by (auto dest: statusOk_createEntry)
  with Inr r assms show ?thesis
    by (auto simp: afterCreate_def Let_def split: hmacOutcome.splits)
qed

lemma statusOk_step: "statusOk d \<Longrightarrow> statusOk (step r d)"
proof (cases r)
  case (SettingsRead e shop)
  assume "statusOk d"
  with SettingsRead show ?thesis by (simp add: statusOk_def getSettings_queueColl)
next
  case (SettingsWritten g)
  assume "statusOk d"
  with SettingsWritten show ?thesis by (simp add: statusOk_def)
next
  case (OrderQueued e shop ord)
  assume "statusOk d"
  with OrderQueued show ?thesis by (simp add: statusOk_afterCreate)
next
  case (OrderHandled e shop ord)
  assume "statusOk d"
  with OrderHandled show ?thesis by (simp add: statusOk_webhook)
qed

lemma statusOk_fold: "statusOk d \<Longrightarrow> statusOk (fold step rs d)"
  by (induction rs arbitrary: d) (simp_all add: statusOk_step)

lemma statusOk_run: "statusOk (run rs)"
proof -
  have "statusOk emptyDb"
    by (simp add: statusOk_def emptyDb_def)
  then show ?thesis
    by (simp add: run_def statusOk_fold)
qed

text \<open>
  Claim C10. After any sequence of requests, every stored intake record is pending,
  completed or in error: the status processing is never stored. A record is created as
  pending, and \<open>generateProductionFile\<close> leaves the record it was given completed or
  in error, whatever its status was.
\<close>

theorem status_never_processing:
  "(\<forall>q \<in> set (queueColl (run rs)). status q \<in> {Pending, Completed, Error}) \<and>
   status (newEntry shop ord cs) = Pending \<and>
   status (gen_entry (generateProductionFile e d q0)) \<in> {Completed, Error}"
  using statusOk_run [of rs] gen_entry_status [of e d q0]
  by (auto simp: statusOk_def list_all_iff status_newEntry)

lemma example_run:
  "run [OrderHandled exampleIo (str ''shop.example'') exampleOrder] =
     \<lparr>settingsColl = Map.empty, queueColl = [handledEntry]\<rparr>"
proof -
  let ?q = "(newEntry (str ''shop.example'') exampleOrder [exampleItem])
              \<lparr>qid := length (queueColl emptyDb), createdAt := now_queued exampleIo\<rparr>"
  let ?d1 = "emptyDb\<lparr>queueColl := queueColl emptyDb @ [?q]\<rparr>"
  have ok: "findOne_fault exampleIo = None" "save_fault exampleIo = None"
      "qid ?q < length (queueColl ?d1)"
    by (simp_all add: exampleIo_def)
  have typed: "\<forall>it \<in> set (items ?q). placementIsString (properties it)"
    by (simp add: newEntry_def exampleItem_def exampleProps_def placementIsString_def getProp_def)
  have none: "settingsColl ?d1 (shopDomain ?q) = None"
    by (simp add: emptyDb_def)
  have "buildProductionData (unicodeUpper exampleIo) (now_created exampleIo)
      (settingsColl ?d1 (shopDomain ?q)) ?q =
      Inr \<lparr>order_id = orderId ?q, order_number = orderNumber ?q, created_at = now_created exampleIo,
          pd_customer = od_customer (orderData ?q), pd_line_items = []\<rparr>"
    unfolding none using typed by (rule buildProductionData_no_catalog)
  note result = generateProductionFile_success [OF ok this]
  have "gen_db (generateProductionFile exampleIo ?d1 ?q) =
      \<lparr>settingsColl = Map.empty, queueColl = [handledEntry]\<rparr>"
    by (simp add: result) (simp add: emptyDb_def handledEntry_def exampleIo_def)
  moreover have "gen_outcome (generateProductionFile exampleIo ?d1 ?q) = Inr ()"
    by (simp add: result)
  moreover have "hmac exampleIo = NoSecret \<and> create_fault exampleIo = None"
    by (simp add: exampleIo_def)
  ultimately show ?thesis
    by (simp add: run_def webhook_def Let_def example_candidates createEntry_ok)
qed

theorem status_never_processing_witness:
  "handledEntry \<in> set (queueColl (run [OrderHandled exampleIo (str ''shop.example'') exampleOrder])) \<and>
   status handledEntry \<in> {Pending, Completed, Error} \<and> status handledEntry = Completed"
proof -
  have mem: "handledEntry \<in>
      set (queueColl (run [OrderHandled exampleIo (str ''shop.example'') exampleOrder]))"
    by (simp add: example_run)
  from status_never_processing [of "[OrderHandled exampleIo (str ''shop.example'') exampleOrder]"]
  have "\<forall>q \<in> set (queueColl (run [OrderHandled exampleIo (str ''shop.example'') exampleOrder])).
          status q \<in> {Pending, Completed, Error}"
    by blast
  with mem have "status handledEntry \<in> {Pending, Completed, Error}"
    by blast
  moreover have "status handledEntry = Completed"
    by (simp add: handledEntry_def)
  ultimately show ?thesis using mem by blast
qed

end
